theory Spec2Isabelle
  imports Main "HOL-Library.Signed_Division"
begin

section \<open>Go values used by the service\<close>

text \<open>
  A Go \<^verbatim>\<open>error\<close> as the service builds it. \<^verbatim>\<open>fmt.Errorf\<close> without a
  \<^verbatim>\<open>%w\<close> verb returns a plain message (\<open>errorString\<close>); with one \<^verbatim>\<open>%w\<close> verb it
  returns a \<open>wrapError\<close>: the formatted message together with the wrapped error.
  Errors coming out of the standard library (URL parsing, the transport, the JSON decoder)
  are values of the same type.
\<close>

datatype go_error = errorString string | wrapError string go_error

fun Error :: "go_error \<Rightarrow> string" where
  "Error (errorString s) = s"
| "Error (wrapError s e) = s"

fun Unwrap :: "go_error \<Rightarrow> go_error option" where
  "Unwrap (errorString s) = None"
| "Unwrap (wrapError s e) = Some e"

text \<open>\<^verbatim>\<open>fmt.Errorf(prefix + "%w", err)\<close>: the message is the prefix followed by
  \<^verbatim>\<open>err.Error()\<close>, and \<open>err\<close> is kept as the wrapped error.\<close>

definition Errorf_w :: "string \<Rightarrow> go_error \<Rightarrow> go_error" where
  "Errorf_w prefix err = wrapError (prefix @ Error err) err"

text \<open>The verb \<^verbatim>\<open>%d\<close> of \<^verbatim>\<open>fmt\<close> on a Go \<^verbatim>\<open>int\<close>: decimal digits, with a
  leading minus sign for a negative number.\<close>

definition digit_char :: "nat \<Rightarrow> char" where
  "digit_char d = ''0123456789'' ! d"

fun digits :: "nat \<Rightarrow> string" where
  "digits n = (if n < 10 then [digit_char n] else digits (n div 10) @ [digit_char (n mod 10)])"

definition fmt_d :: "int \<Rightarrow> string" where
  "fmt_d i = (if i < 0 then CHR ''-'' # digits (nat (- i)) else digits (nat i))"

text \<open>A Go slice is either \<^verbatim>\<open>nil\<close> or a (possibly empty) sequence; the two differ
  when the value is encoded as JSON (\<^verbatim>\<open>null\<close> against \<^verbatim>\<open>[]\<close>).\<close>

datatype 'a slice = NilSlice | Slice "'a list"

fun elems :: "'a slice \<Rightarrow> 'a list" where
  "elems NilSlice = []"
| "elems (Slice xs) = xs"

definition len :: "'a slice \<Rightarrow> nat" where
  "len s = length (elems s)"

section \<open>Region router\<close>

text \<open>The two routing tables are map literals local to the functions; a Go map literal
  with distinct keys is an association list read with \<^const>\<open>map_of\<close>. Indexing a Go map
  at a missing key yields the zero value of the element type, here the empty string.\<close>

definition regionalRouting :: "(string \<times> string) list" where
  "regionalRouting =
     [(''na'', ''na1.api.riotgames.com''),
      (''euw'', ''euw1.api.riotgames.com''),
      (''eune'', ''eun1.api.riotgames.com''),
      (''kr'', ''kr.api.riotgames.com''),
      (''br'', ''br1.api.riotgames.com''),
      (''jp'', ''jp1.api.riotgames.com''),
      (''ru'', ''ru.api.riotgames.com''),
      (''oce'', ''oc1.api.riotgames.com''),
      (''tr'', ''tr1.api.riotgames.com''),
      (''lan'', ''la1.api.riotgames.com''),
      (''las'', ''la2.api.riotgames.com'')]"

definition continentalRouting :: "(string \<times> string) list" where
  "continentalRouting =
     [(''na'', ''americas.api.riotgames.com''),
      (''br'', ''americas.api.riotgames.com''),
      (''lan'', ''americas.api.riotgames.com''),
      (''las'', ''americas.api.riotgames.com''),
      (''euw'', ''europe.api.riotgames.com''),
      (''eune'', ''europe.api.riotgames.com''),
      (''tr'', ''europe.api.riotgames.com''),
      (''ru'', ''europe.api.riotgames.com''),
      (''kr'', ''asia.api.riotgames.com''),
      (''jp'', ''asia.api.riotgames.com''),
      (''oce'', ''sea.api.riotgames.com'')]"

definition map_index :: "(string \<times> string) list \<Rightarrow> string \<Rightarrow> string" where
  "map_index m k = (case map_of m k of Some v \<Rightarrow> v | None \<Rightarrow> '''')"

definition getRegionalURL :: "string \<Rightarrow> string" where
  "getRegionalURL region =
     (case map_of regionalRouting region of
        Some url \<Rightarrow> url
      | None \<Rightarrow> map_index regionalRouting ''na'')"

definition getMatchRegionalURL :: "string \<Rightarrow> string" where
  "getMatchRegionalURL region =
     (case map_of continentalRouting region of
        Some url \<Rightarrow> url
      | None \<Rightarrow> map_index continentalRouting ''na'')"

definition region_keys :: "string list" where
  "region_keys = [''na'', ''euw'', ''eune'', ''kr'', ''br'', ''jp'', ''ru'', ''oce'', ''tr'', ''lan'', ''las'']"

section \<open>Domain records\<close>

text \<open>The records of package \<^verbatim>\<open>models\<close>. Go's \<^verbatim>\<open>int\<close> and \<^verbatim>\<open>int64\<close> fields are
  copied, compared and printed by the service, so they are integers here. The one
  computation on them, \<^verbatim>\<open>time.UnixMilli\<close> on \<open>gameCreation\<close>, divides by 1000 and
  multiplies a remainder below 1000 by a million: it cannot leave 64 bits.\<close>

record Summoner =
  s_ID :: string
  s_AccountID :: string
  s_PUUID :: string
  s_Name :: string
  s_ProfileIconID :: int
  s_SummonerLevel :: int

text \<open>A \<^verbatim>\<open>time.Time\<close> as the instant it denotes: seconds since the Unix epoch and
  nanoseconds within the second.\<close>

record Time =
  unix_sec :: int
  unix_nsec :: int

record Participant =
  PUUID :: string
  SummonerName :: string
  ChampionID :: int
  ChampionName :: string
  Kills :: int
  Deaths :: int
  Assists :: int
  GoldEarned :: int
  TotalDamageDealtToChampions :: int
  TotalDamageTaken :: int
  VisionScore :: int
  TotalMinionsKilled :: int
  Win :: bool
  TeamPosition :: string

record Match =
  MatchID :: string
  GameCreation :: Time
  GameDuration :: int
  GameMode :: string
  GameType :: string
  Participants :: "Participant slice"

text \<open>The anonymous structs that the service decodes provider payloads into.\<close>

record accountInfo =
  acct_PUUID :: string
  acct_GameName :: string
  acct_TagLine :: string

record rawParticipant =
  raw_PUUID :: string
  raw_SummonerName :: string
  raw_ChampionID :: int
  raw_ChampionName :: string
  raw_Kills :: int
  raw_Deaths :: int
  raw_Assists :: int
  raw_GoldEarned :: int
  raw_TotalDamageDealtToChampions :: int
  raw_TotalDamageTaken :: int
  raw_VisionScore :: int
  raw_TotalMinionsKilled :: int
  raw_Win :: bool
  raw_TeamPosition :: string

record rawMetadata =
  raw_MatchID :: string

record rawInfo =
  raw_GameCreation :: int
  raw_GameDuration :: int
  raw_GameMode :: string
  raw_GameType :: string
  raw_Participants :: "rawParticipant slice"

record rawMatch =
  Metadata :: rawMetadata
  Info :: rawInfo

text \<open>Zero values: what a Go \<^verbatim>\<open>var\<close> declaration without initialiser holds, and what
  \<^verbatim>\<open>make\<close> fills a new slice with.\<close>

definition Summoner_zero :: Summoner where
  "Summoner_zero = \<lparr>s_ID = '''', s_AccountID = '''', s_PUUID = '''', s_Name = '''',
     s_ProfileIconID = 0, s_SummonerLevel = 0\<rparr>"

definition accountInfo_zero :: accountInfo where
  "accountInfo_zero = \<lparr>acct_PUUID = '''', acct_GameName = '''', acct_TagLine = ''''\<rparr>"

definition Participant_zero :: Participant where
  "Participant_zero = \<lparr>PUUID = '''', SummonerName = '''', ChampionID = 0, ChampionName = '''',
     Kills = 0, Deaths = 0, Assists = 0, GoldEarned = 0, TotalDamageDealtToChampions = 0,
     TotalDamageTaken = 0, VisionScore = 0, TotalMinionsKilled = 0, Win = False,
     TeamPosition = ''''\<rparr>"

definition rawMatch_zero :: rawMatch where
  "rawMatch_zero = \<lparr>Metadata = \<lparr>raw_MatchID = ''''\<rparr>,
     Info = \<lparr>raw_GameCreation = 0, raw_GameDuration = 0, raw_GameMode = '''',
       raw_GameType = '''', raw_Participants = NilSlice\<rparr>\<rparr>"

section \<open>The standard library and the provider\<close>

text \<open>
  What the service uses and does not define is a parameter of the model.
  \<^item> \<open>url_Parse\<close>: \<^verbatim>\<open>http.NewRequest\<close> with the method \<^verbatim>\<open>GET\<close> and no body fails
    exactly when the URL does not parse; \<open>Some err\<close> is that failure.
  \<^item> \<open>Decode_*\<close>: \<^verbatim>\<open>json.NewDecoder(body).Decode(target)\<close> at each target type. It is
    given the body and the target as its caller initialised it, and returns the target
    as decoding left it, or the decoder's error.
  The provider and the network are the transport \<open>httpClient\<close> of the service: a function
  of the state of the outside world and the request, returning the response or the
  transport's error, and the next state of the world. A request that runs into the
  client's ten-second timeout returns an error like any other transport failure.
  The \<open>Body\<close> of a response is the bytes read from it.
\<close>

record request =
  Method :: string
  URL :: string
  Header :: "(string \<times> string) list"

record response =
  StatusCode :: int
  Body :: string

record stdlib =
  url_Parse :: "string \<Rightarrow> go_error option"
  Decode_accountInfo :: "string \<Rightarrow> accountInfo \<Rightarrow> go_error + accountInfo"
  Decode_Summoner :: "string \<Rightarrow> Summoner \<Rightarrow> go_error + Summoner"
  Decode_matchIDs :: "string \<Rightarrow> string slice \<Rightarrow> go_error + string slice"
  Decode_rawMatch :: "string \<Rightarrow> rawMatch \<Rightarrow> go_error + rawMatch"

record 'w RiotService =
  apiKey :: string
  httpClient :: "'w \<Rightarrow> request \<Rightarrow> (go_error + response) \<times> 'w"
  baseURLOverride :: string

text \<open>The state threaded through the service: the outside world, and the requests sent
  so far, oldest first.\<close>

record 'w state =
  world :: 'w
  sent :: "request list"

definition NewRequest :: "stdlib \<Rightarrow> string \<Rightarrow> string \<Rightarrow> go_error + request" where
  "NewRequest lib method url =
     (case url_Parse lib url of
        Some err \<Rightarrow> Inl err
      | None \<Rightarrow> Inr \<lparr>Method = method, URL = url, Header = []\<rparr>)"

definition Header_Add :: "request \<Rightarrow> string \<Rightarrow> string \<Rightarrow> request" where
  "Header_Add req k v = req\<lparr>Header := Header req @ [(k, v)]\<rparr>"

definition Do :: "'w RiotService \<Rightarrow> request \<Rightarrow> 'w state \<Rightarrow> (go_error + response) \<times> 'w state" where
  "Do svc req st =
     (case httpClient svc (world st) req of
        (r, w') \<Rightarrow> (r, \<lparr>world = w', sent = sent st @ [req]\<rparr>))"

text \<open>\<^verbatim>\<open>time.Unix\<close> and \<^verbatim>\<open>time.UnixMilli\<close> of the standard library. Go's \<^verbatim>\<open>/\<close> and
  \<^verbatim>\<open>%\<close> on integers truncate towards zero: \<open>sdiv\<close> and \<open>smod\<close>.\<close>

definition Unix :: "int \<Rightarrow> int \<Rightarrow> Time" where
  "Unix sec nsec =
     (if nsec < 0 \<or> nsec \<ge> 1000000000 then
        (let n = nsec sdiv 1000000000;
             sec1 = sec + n;
             nsec1 = nsec - n * 1000000000
         in if nsec1 < 0 then \<lparr>unix_sec = sec1 - 1, unix_nsec = nsec1 + 1000000000\<rparr>
            else \<lparr>unix_sec = sec1, unix_nsec = nsec1\<rparr>)
      else \<lparr>unix_sec = sec, unix_nsec = nsec\<rparr>)"

definition UnixMilli :: "int \<Rightarrow> Time" where
  "UnixMilli msec = Unix (msec sdiv 1000) ((msec smod 1000) * 1000000)"

text \<open>The instant of a \<open>Time\<close> in nanoseconds since the epoch.\<close>

definition UnixNano :: "Time \<Rightarrow> int" where
  "UnixNano t = unix_sec t * 1000000000 + unix_nsec t"

section \<open>Data aggregator\<close>

definition makeRequest ::
  "'w RiotService \<Rightarrow> stdlib \<Rightarrow> (string \<Rightarrow> 't \<Rightarrow> go_error + 't) \<Rightarrow> string \<Rightarrow> 't \<Rightarrow> 'w state
     \<Rightarrow> (go_error + 't) \<times> 'w state" where
  "makeRequest svc lib Decode url target st =
     (case NewRequest lib ''GET'' url of
        Inl err \<Rightarrow> (Inl (Errorf_w ''failed to create request: '' err), st)
      | Inr req \<Rightarrow>
          (case Do svc (Header_Add req ''X-Riot-Token'' (apiKey svc)) st of
             (Inl err, st') \<Rightarrow> (Inl (Errorf_w ''failed to execute request: '' err), st')
           | (Inr resp, st') \<Rightarrow>
               if StatusCode resp \<noteq> 200 then
                 (Inl (errorString (''API request failed with status '' @ fmt_d (StatusCode resp)
                                      @ '': '' @ Body resp)), st')
               else
                 (case Decode (Body resp) target of
                    Inl err \<Rightarrow> (Inl (Errorf_w ''failed to decode response: '' err), st')
                  | Inr v \<Rightarrow> (Inr v, st'))))"

text \<open>The URL of each operation is named (\<open>accountEndpoint\<close>, \<open>matchDetailsURL\<close>,
  \<open>matchListURL\<close>) so that statements can refer to the request made; it is the host of the
  region and the path, put together by \<open>buildURL\<close>. The earlier revision of the service,
  without the override, builds the same URLs: it is the case of an empty
  \<open>baseURLOverride\<close>.\<close>

definition buildURL :: "'w RiotService \<Rightarrow> string \<Rightarrow> string \<Rightarrow> string" where
  "buildURL svc baseURL path =
     (if baseURLOverride svc \<noteq> '''' then baseURLOverride svc @ path
      else ''https://'' @ baseURL @ path)"

definition GetSummonerByPUUID ::
  "'w RiotService \<Rightarrow> stdlib \<Rightarrow> string \<Rightarrow> string \<Rightarrow> 'w state \<Rightarrow> (go_error + Summoner) \<times> 'w state" where
  "GetSummonerByPUUID svc lib region puuid st =
     (let baseURL = getRegionalURL region;
          path = ''/lol/summoner/v4/summoners/by-puuid/'' @ puuid;
          url = buildURL svc baseURL path
      in case makeRequest svc lib (Decode_Summoner lib) url Summoner_zero st of
           (Inl err, st') \<Rightarrow> (Inl (Errorf_w ''failed to get summoner: '' err), st')
         | (Inr summoner, st') \<Rightarrow> (Inr summoner, st'))"

definition accountEndpoint :: "'w RiotService \<Rightarrow> string \<Rightarrow> string \<Rightarrow> string \<Rightarrow> string" where
  "accountEndpoint svc region gameName tagLine =
     buildURL svc (getMatchRegionalURL region)
       (''/riot/account/v1/accounts/by-riot-id/'' @ gameName @ ''/'' @ tagLine)"

definition GetSummonerByRiotID ::
  "'w RiotService \<Rightarrow> stdlib \<Rightarrow> string \<Rightarrow> string \<Rightarrow> string \<Rightarrow> 'w state
     \<Rightarrow> (go_error + Summoner) \<times> 'w state" where
  "GetSummonerByRiotID svc lib region gameName tagLine st =
     (case makeRequest svc lib (Decode_accountInfo lib)
             (accountEndpoint svc region gameName tagLine) accountInfo_zero st of
        (Inl err, st') \<Rightarrow> (Inl (Errorf_w ''failed to get account info: '' err), st')
      | (Inr acct, st') \<Rightarrow> GetSummonerByPUUID svc lib region (acct_PUUID acct) st')"

text \<open>The conversion of one raw participant, and the loop of \<open>GetMatchDetails\<close> that
  writes the converted participants by index into the slice made beforehand.\<close>

definition convert_participant :: "rawParticipant \<Rightarrow> Participant" where
  "convert_participant participant =
     \<lparr>PUUID = raw_PUUID participant,
      SummonerName = raw_SummonerName participant,
      ChampionID = raw_ChampionID participant,
      ChampionName = raw_ChampionName participant,
      Kills = raw_Kills participant,
      Deaths = raw_Deaths participant,
      Assists = raw_Assists participant,
      GoldEarned = raw_GoldEarned participant,
      TotalDamageDealtToChampions = raw_TotalDamageDealtToChampions participant,
      TotalDamageTaken = raw_TotalDamageTaken participant,
      VisionScore = raw_VisionScore participant,
      TotalMinionsKilled = raw_TotalMinionsKilled participant,
      Win = raw_Win participant,
      TeamPosition = raw_TeamPosition participant\<rparr>"

fun participants_loop :: "rawParticipant list \<Rightarrow> nat \<Rightarrow> Participant list \<Rightarrow> Participant list" where
  "participants_loop [] i out = out"
| "participants_loop (participant # rest) i out =
     participants_loop rest (Suc i) (out[i := convert_participant participant])"

definition convert_match :: "rawMatch \<Rightarrow> Match" where
  "convert_match rawMatch =
     (let made = replicate (len (raw_Participants (Info rawMatch))) Participant_zero
      in \<lparr>MatchID = raw_MatchID (Metadata rawMatch),
          GameCreation = UnixMilli (raw_GameCreation (Info rawMatch)),
          GameDuration = raw_GameDuration (Info rawMatch),
          GameMode = raw_GameMode (Info rawMatch),
          GameType = raw_GameType (Info rawMatch),
          Participants = Slice (participants_loop (elems (raw_Participants (Info rawMatch))) 0 made)\<rparr>)"

definition matchDetailsURL :: "'w RiotService \<Rightarrow> string \<Rightarrow> string \<Rightarrow> string" where
  "matchDetailsURL svc region matchID =
     buildURL svc (getMatchRegionalURL region) (''/lol/match/v5/matches/'' @ matchID)"

definition GetMatchDetails ::
  "'w RiotService \<Rightarrow> stdlib \<Rightarrow> string \<Rightarrow> string \<Rightarrow> 'w state \<Rightarrow> (go_error + Match) \<times> 'w state" where
  "GetMatchDetails svc lib region matchID st =
     (case makeRequest svc lib (Decode_rawMatch lib) (matchDetailsURL svc region matchID)
             rawMatch_zero st of
        (Inl err, st') \<Rightarrow> (Inl (Errorf_w ''failed to get match details: '' err), st')
      | (Inr rawMatch, st') \<Rightarrow> (Inr (convert_match rawMatch), st'))"

text \<open>The loop of \<open>GetMatchHistory\<close> over the match IDs: a failed fetch is skipped
  (\<^verbatim>\<open>continue\<close>), a fetched match is appended.\<close>

fun history_loop ::
  "'w RiotService \<Rightarrow> stdlib \<Rightarrow> string \<Rightarrow> string list \<Rightarrow> Match list \<Rightarrow> 'w state
     \<Rightarrow> Match list \<times> 'w state" where
  "history_loop svc lib region [] matches st = (matches, st)"
| "history_loop svc lib region (matchID # rest) matches st =
     (case GetMatchDetails svc lib region matchID st of
        (Inl err, st') \<Rightarrow> history_loop svc lib region rest matches st'
      | (Inr match, st') \<Rightarrow> history_loop svc lib region rest (matches @ [match]) st')"

definition matchListURL :: "'w RiotService \<Rightarrow> string \<Rightarrow> string \<Rightarrow> int \<Rightarrow> string" where
  "matchListURL svc region puuid count =
     buildURL svc (getMatchRegionalURL region)
       (''/lol/match/v5/matches/by-puuid/'' @ puuid @ ''/ids?start=0&count='' @ fmt_d count)"

definition GetMatchHistory ::
  "'w RiotService \<Rightarrow> stdlib \<Rightarrow> string \<Rightarrow> string \<Rightarrow> int \<Rightarrow> 'w state
     \<Rightarrow> (go_error + Match slice) \<times> 'w state" where
  "GetMatchHistory svc lib region puuid count st =
     (case makeRequest svc lib (Decode_matchIDs lib) (matchListURL svc region puuid count)
             NilSlice st of
        (Inl err, st') \<Rightarrow> (Inl (Errorf_w ''failed to get match list: '' err), st')
      | (Inr matchIDs, st') \<Rightarrow>
          (case history_loop svc lib region (elems matchIDs) [] st' of
             (matches, st'') \<Rightarrow> (Inr (Slice matches), st'')))"

text \<open>The outcomes of the per-match detail fetches of a list of IDs, in the order the
  loop makes them, each in the state the previous one left.\<close>

fun detail_fetches ::
  "'w RiotService \<Rightarrow> stdlib \<Rightarrow> string \<Rightarrow> string list \<Rightarrow> 'w state
     \<Rightarrow> (go_error + Match) list \<times> 'w state" where
  "detail_fetches svc lib region [] st = ([], st)"
| "detail_fetches svc lib region (matchID # rest) st =
     (case GetMatchDetails svc lib region matchID st of
        (r, st') \<Rightarrow>
          (case detail_fetches svc lib region rest st' of
             (rs, st'') \<Rightarrow> (r # rs, st'')))"

text \<open>The matches among a list of fetch outcomes, in order: the failures are left out.\<close>

fun fetched :: "(go_error + 'a) list \<Rightarrow> 'a list" where
  "fetched [] = []"
| "fetched (Inl err # rs) = fetched rs"
| "fetched (Inr m # rs) = m # fetched rs"

text \<open>The state in which the loop of \<open>GetMatchHistory\<close> makes fetch number \<open>i\<close>
  (counting from 0), the loop having started in \<open>st\<close>.\<close>

definition state_before ::
  "'w RiotService \<Rightarrow> stdlib \<Rightarrow> string \<Rightarrow> string list \<Rightarrow> 'w state \<Rightarrow> nat \<Rightarrow> 'w state" where
  "state_before svc lib region matchIDs st i =
     snd (detail_fetches svc lib region (take i matchIDs) st)"

text \<open>The request \<open>makeRequest\<close> sends for a URL that parses, and the three errors it
  builds once a request was made: for a transport failure, for a status other than 200,
  and for a body that the decoder rejects.\<close>

definition riot_request :: "'w RiotService \<Rightarrow> string \<Rightarrow> request" where
  "riot_request svc url =
     Header_Add \<lparr>Method = ''GET'', URL = url, Header = []\<rparr> ''X-Riot-Token'' (apiKey svc)"

definition execute_error :: "go_error \<Rightarrow> go_error" where
  "execute_error err = Errorf_w ''failed to execute request: '' err"

definition status_error :: "int \<Rightarrow> string \<Rightarrow> go_error" where
  "status_error code body =
     errorString (''API request failed with status '' @ fmt_d code @ '': '' @ body)"

definition decode_error :: "go_error \<Rightarrow> go_error" where
  "decode_error err = Errorf_w ''failed to decode response: '' err"

section \<open>HTTP handlers\<close>

text \<open>
  The handlers reach the service through \<^verbatim>\<open>RiotServiceInterface\<close>; its methods are
  parameters here, functions of the outside world. The handler state also records each
  call made through the interface, with its arguments. A handler's effect on the
  response writer is the reply it returns: an error text with a status, or the encoded
  matches.
\<close>

record matchRequest =
  req_Region :: string
  req_GameName :: string
  req_TagLine :: string
  req_PUUID :: string
  req_Count :: int

definition matchRequest_zero :: matchRequest where
  "matchRequest_zero = \<lparr>req_Region = '''', req_GameName = '''', req_TagLine = '''',
     req_PUUID = '''', req_Count = 0\<rparr>"

datatype svc_call =
    Call_GetSummonerByRiotID string string string
  | Call_GetMatchHistory string string int

datatype reply = http_Error string int | json_Encode "Match slice"

record 'w RiotServiceInterface =
  iface_GetSummonerByRiotID :: "string \<Rightarrow> string \<Rightarrow> string \<Rightarrow> 'w \<Rightarrow> (go_error + Summoner) \<times> 'w"
  iface_GetMatchHistory :: "string \<Rightarrow> string \<Rightarrow> int \<Rightarrow> 'w \<Rightarrow> (go_error + Match slice) \<times> 'w"

record 'w hstate =
  hworld :: 'w
  calls :: "svc_call list"

definition call_GetSummonerByRiotID ::
  "'w RiotServiceInterface \<Rightarrow> string \<Rightarrow> string \<Rightarrow> string \<Rightarrow> 'w hstate
     \<Rightarrow> (go_error + Summoner) \<times> 'w hstate" where
  "call_GetSummonerByRiotID riotService region gameName tagLine st =
     (case iface_GetSummonerByRiotID riotService region gameName tagLine (hworld st) of
        (r, w') \<Rightarrow>
          (r, \<lparr>hworld = w', calls = calls st @ [Call_GetSummonerByRiotID region gameName tagLine]\<rparr>))"

definition call_GetMatchHistory ::
  "'w RiotServiceInterface \<Rightarrow> string \<Rightarrow> string \<Rightarrow> int \<Rightarrow> 'w hstate
     \<Rightarrow> (go_error + Match slice) \<times> 'w hstate" where
  "call_GetMatchHistory riotService region puuid count st =
     (case iface_GetMatchHistory riotService region puuid count (hworld st) of
        (r, w') \<Rightarrow> (r, \<lparr>hworld = w', calls = calls st @ [Call_GetMatchHistory region puuid count]\<rparr>))"

text \<open>The part of \<open>GetMatchesByRiotID\<close> after the PUUID is known: the default of the
  count, the call of \<open>GetMatchHistory\<close> and the reply.\<close>

definition matches_by_puuid ::
  "'w RiotServiceInterface \<Rightarrow> matchRequest \<Rightarrow> string \<Rightarrow> 'w hstate \<Rightarrow> reply \<times> 'w hstate" where
  "matches_by_puuid riotService matchRequest puuid st =
     (let count = req_Count matchRequest;
          count = (if count \<le> 0 then 20 else count)
      in case call_GetMatchHistory riotService (req_Region matchRequest) puuid count st of
           (Inl err, st') \<Rightarrow> (http_Error (Error err) 500, st')
         | (Inr matches, st') \<Rightarrow> (json_Encode matches, st'))"

definition GetMatchesByRiotID ::
  "'w RiotServiceInterface \<Rightarrow> (string \<Rightarrow> matchRequest \<Rightarrow> go_error + matchRequest) \<Rightarrow> string
     \<Rightarrow> 'w hstate \<Rightarrow> reply \<times> 'w hstate" where
  "GetMatchesByRiotID riotService Decode body st =
     (case Decode body matchRequest_zero of
        Inl err \<Rightarrow> (http_Error ''Invalid request body'' 400, st)
      | Inr matchRequest \<Rightarrow>
          if req_Region matchRequest = '''' then (http_Error ''region is required'' 400, st)
          else if req_PUUID matchRequest \<noteq> '''' then
            matches_by_puuid riotService matchRequest (req_PUUID matchRequest) st
          else if req_GameName matchRequest \<noteq> '''' \<and> req_TagLine matchRequest \<noteq> '''' then
            (case call_GetSummonerByRiotID riotService (req_Region matchRequest)
                    (req_GameName matchRequest) (req_TagLine matchRequest) st of
               (Inl err, st') \<Rightarrow> (http_Error (Error err) 500, st')
             | (Inr summoner, st') \<Rightarrow>
                 matches_by_puuid riotService matchRequest (s_PUUID summoner) st')
          else (http_Error ''either (gameName and tagLine) or puuid is required'' 400, st))"

text \<open>The path-parameter handler \<open>GetMatches\<close>: region and PUUID come from the route, the
  count from the query string (\<open>countStr\<close> is empty when the parameter is absent);
  \<^verbatim>\<open>strconv.Atoi\<close> is the parameter \<open>Atoi\<close>, for which \<open>strconv_Atoi\<close> below is
  the function of the standard library.\<close>

definition GetMatches ::
  "'w RiotServiceInterface \<Rightarrow> (string \<Rightarrow> go_error + int) \<Rightarrow> string \<Rightarrow> string \<Rightarrow> string
     \<Rightarrow> 'w hstate \<Rightarrow> reply \<times> 'w hstate" where
  "GetMatches riotService Atoi region puuid countStr st =
     (let count = (if countStr \<noteq> '''' then
                     (case Atoi countStr of
                        Inr parsedCount \<Rightarrow> if parsedCount > 0 then parsedCount else 20
                      | Inl err \<Rightarrow> 20)
                   else 20)
      in case call_GetMatchHistory riotService region puuid count st of
           (Inl err, st') \<Rightarrow> (http_Error (Error err) 500, st')
         | (Inr matches, st') \<Rightarrow> (json_Encode matches, st'))"

text \<open>
  \<^verbatim>\<open>strconv.Atoi\<close> of the standard library, where \<^verbatim>\<open>int\<close> has 64 bits: it is
  \<^verbatim>\<open>ParseInt(s, 10, 0)\<close>, with a shortcut for short strings that gives the same
  result. The string is an optional sign followed by at least one decimal digit and
  nothing else; \<^verbatim>\<open>ParseUint\<close> reads the digits from the left and stops at the first
  byte that is no digit, or at the first digit with which the number no longer fits 64
  bits; \<^verbatim>\<open>ParseInt\<close> then refuses a number outside the range of \<^verbatim>\<open>int\<close>. The
  error returned is a \<^verbatim>\<open>*NumError\<close> around \<^verbatim>\<open>ErrSyntax\<close> or
  \<^verbatim>\<open>ErrRange\<close>; the handler only tests it against \<^verbatim>\<open>nil\<close>, and the model
  returns the error inside, without the function name and the quoted input that the
  \<^verbatim>\<open>*NumError\<close> adds to the message.
\<close>

definition ErrSyntax :: go_error where
  "ErrSyntax = errorString ''invalid syntax''"

definition ErrRange :: go_error where
  "ErrRange = errorString ''value out of range''"

definition digit_val :: "char \<Rightarrow> nat option" where
  "digit_val c =
     (if 48 \<le> (of_char c :: nat) \<and> (of_char c :: nat) \<le> 57 then Some (of_char c - 48) else None)"

fun ParseUint_loop :: "string \<Rightarrow> nat \<Rightarrow> go_error + nat" where
  "ParseUint_loop [] n = Inr n"
| "ParseUint_loop (c # cs) n =
     (case digit_val c of
        None \<Rightarrow> Inl ErrSyntax
      | Some d \<Rightarrow>
          if 2 ^ 64 \<le> n * 10 + d then Inl ErrRange else ParseUint_loop cs (n * 10 + d))"

definition ParseUint :: "string \<Rightarrow> go_error + nat" where
  "ParseUint s = (if s = [] then Inl ErrSyntax else ParseUint_loop s 0)"

definition ParseInt :: "string \<Rightarrow> go_error + int" where
  "ParseInt s =
     (if s = [] then Inl ErrSyntax
      else
        let neg = (hd s = CHR ''-'');
            s' = (if hd s = CHR ''+'' \<or> hd s = CHR ''-'' then tl s else s)
        in case ParseUint s' of
             Inl err \<Rightarrow> Inl err
           | Inr un \<Rightarrow>
               if \<not> neg \<and> 2 ^ 63 \<le> un then Inl ErrRange
               else if neg \<and> 2 ^ 63 < un then Inl ErrRange
               else Inr (if neg then - int un else int un))"

definition strconv_Atoi :: "string \<Rightarrow> go_error + int" where
  "strconv_Atoi s = ParseInt s"

text \<open>What either handler does once region, PUUID and count are fixed: the one call of
  \<^verbatim>\<open>GetMatchHistory\<close> through the interface with these arguments, on the world as
  it is, the entry of that call in the log, and the reply made from what the call
  returned.\<close>

definition GetMatchHistory_reply ::
  "'w RiotServiceInterface \<Rightarrow> string \<Rightarrow> string \<Rightarrow> int \<Rightarrow> 'w hstate \<Rightarrow> reply \<times> 'w hstate" where
  "GetMatchHistory_reply riotService region puuid count st =
     (case iface_GetMatchHistory riotService region puuid count (hworld st) of
        (Inl err, w') \<Rightarrow>
          (http_Error (Error err) 500,
           \<lparr>hworld = w', calls = calls st @ [Call_GetMatchHistory region puuid count]\<rparr>)
      | (Inr matches, w') \<Rightarrow>
          (json_Encode matches,
           \<lparr>hworld = w', calls = calls st @ [Call_GetMatchHistory region puuid count]\<rparr>))"

section \<open>A stub provider\<close>

text \<open>
  A concrete service, provider and library on which the theorems below are instantiated,
  in the manner of the repository's tests against a local server: the base URL is
  overridden, the provider answers by URL from a table and with 404 elsewhere, and counts
  the requests it receives. The decoders are tables over the bodies the provider serves;
  those whose target is a struct return the target as it was given on the body \<open>{}\<close>,
  as decoding an empty JSON object into a struct does.
\<close>

definition raw_123 :: rawMatch where
  "raw_123 = \<lparr>Metadata = \<lparr>raw_MatchID = ''NA1_123''\<rparr>,
     Info = \<lparr>raw_GameCreation = 1700000000000, raw_GameDuration = 1800,
       raw_GameMode = ''CLASSIC'', raw_GameType = ''MATCHED_GAME'',
       raw_Participants = Slice []\<rparr>\<rparr>"

definition raw_participant_1 :: rawParticipant where
  "raw_participant_1 = \<lparr>raw_PUUID = ''puuid-1'', raw_SummonerName = ''Player1'',
     raw_ChampionID = 1, raw_ChampionName = ''Annie'', raw_Kills = 10, raw_Deaths = 2,
     raw_Assists = 5, raw_GoldEarned = 12000, raw_TotalDamageDealtToChampions = 25000,
     raw_TotalDamageTaken = 15000, raw_VisionScore = 30, raw_TotalMinionsKilled = 200,
     raw_Win = True, raw_TeamPosition = ''MIDDLE''\<rparr>"

definition raw_125 :: rawMatch where
  "raw_125 = \<lparr>Metadata = \<lparr>raw_MatchID = ''NA1_125''\<rparr>,
     Info = \<lparr>raw_GameCreation = - 1, raw_GameDuration = 900,
       raw_GameMode = ''ARAM'', raw_GameType = ''MATCHED_GAME'',
       raw_Participants = Slice [raw_participant_1]\<rparr>\<rparr>"

definition stub_summoner :: Summoner where
  "stub_summoner = \<lparr>s_ID = ''summoner-id'', s_AccountID = ''account-id'',
     s_PUUID = ''test-puuid'', s_Name = ''Player'', s_ProfileIconID = 1234,
     s_SummonerLevel = 100\<rparr>"

definition stub_table :: "(string \<times> (go_error + response)) list" where
  "stub_table =
     [(''http://stub/down'', Inl (errorString ''connection refused'')),
      (''http://stub/limited'', Inr \<lparr>StatusCode = 429, Body = ''Rate limit exceeded''\<rparr>),
      (''http://stub/created'', Inr \<lparr>StatusCode = 201, Body = ''{}''\<rparr>),
      (''http://stub/nocontent'', Inr \<lparr>StatusCode = 204, Body = ''''\<rparr>),
      (''http://stub/garbage'', Inr \<lparr>StatusCode = 200, Body = ''invalid json''\<rparr>),
      (''http://stub/ok'', Inr \<lparr>StatusCode = 200, Body = ''{}''\<rparr>),
      (''http://stub/riot/account/v1/accounts/by-riot-id/Player/NA1'',
         Inr \<lparr>StatusCode = 200, Body = ''account''\<rparr>),
      (''http://stub/riot/account/v1/accounts/by-riot-id/Ghost/NA1'',
         Inr \<lparr>StatusCode = 200, Body = ''{}''\<rparr>),
      (''http://stub/lol/summoner/v4/summoners/by-puuid/test-puuid'',
         Inr \<lparr>StatusCode = 200, Body = ''summoner''\<rparr>),
      (''http://stub/lol/match/v5/matches/by-puuid/test-puuid/ids?start=0&count=10'',
         Inr \<lparr>StatusCode = 200, Body = ''ids-123-124-125''\<rparr>),
      (''http://stub/lol/match/v5/matches/by-puuid/test-puuid/ids?start=0&count=2'',
         Inr \<lparr>StatusCode = 200, Body = ''ids-123-125''\<rparr>),
      (''http://stub/lol/match/v5/matches/by-puuid/test-puuid/ids?start=0&count=1'',
         Inr \<lparr>StatusCode = 200, Body = ''ids-126''\<rparr>),
      (''http://stub/lol/match/v5/matches/NA1_123'',
         Inr \<lparr>StatusCode = 200, Body = ''match-123''\<rparr>),
      (''http://stub/lol/match/v5/matches/NA1_125'',
         Inr \<lparr>StatusCode = 200, Body = ''match-125''\<rparr>),
      (''http://stub/lol/match/v5/matches/NA1_126'',
         Inr \<lparr>StatusCode = 200, Body = ''{}''\<rparr>),
      (''http://stub/created-garbage'', Inr \<lparr>StatusCode = 201, Body = ''invalid json''\<rparr>)]"

definition stub_provider :: "nat \<Rightarrow> request \<Rightarrow> (go_error + response) \<times> nat" where
  "stub_provider w req =
     (case map_of stub_table (URL req) of
        Some r \<Rightarrow> (r, Suc w)
      | None \<Rightarrow> (Inr \<lparr>StatusCode = 404, Body = ''Not found''\<rparr>, Suc w))"

definition stub_svc :: "nat RiotService" where
  "stub_svc = \<lparr>apiKey = ''test-api-key'', httpClient = stub_provider,
     baseURLOverride = ''http://stub''\<rparr>"

definition stub_lookup :: "(string \<times> 't) list \<Rightarrow> string \<Rightarrow> go_error + 't" where
  "stub_lookup table body =
     (case map_of table body of
        Some v \<Rightarrow> Inr v
      | None \<Rightarrow> Inl (errorString ''invalid character''))"

definition stub_decode :: "(string \<times> 't) list \<Rightarrow> string \<Rightarrow> 't \<Rightarrow> go_error + 't" where
  "stub_decode table body target =
     (if body = ''{}'' then Inr target else stub_lookup table body)"

definition stub_lib :: stdlib where
  "stub_lib = \<lparr>url_Parse = (\<lambda>url. None),
     Decode_accountInfo = stub_decode
       [(''account'', \<lparr>acct_PUUID = ''test-puuid'', acct_GameName = ''Player'', acct_TagLine = ''NA1''\<rparr>)],
     Decode_Summoner = stub_decode [(''summoner'', stub_summoner)],
     Decode_matchIDs = (\<lambda>body target. stub_lookup
       [(''ids-123-124-125'', Slice [''NA1_123'', ''NA1_124'', ''NA1_125'']),
        (''ids-123-125'', Slice [''NA1_123'', ''NA1_125'']),
        (''ids-126'', Slice [''NA1_126''])] body),
     Decode_rawMatch = stub_decode [(''match-123'', raw_123), (''match-125'', raw_125)]\<rparr>"

definition st0 :: "nat state" where
  "st0 = \<lparr>world = 0, sent = []\<rparr>"

text \<open>A stub behind the handlers: the summoner lookup answers with the PUUID
  \<open>test-puuid\<close>, the match history with as many matches as the count it is given.\<close>

definition stub_iface :: "nat RiotServiceInterface" where
  "stub_iface = \<lparr>
     iface_GetSummonerByRiotID = (\<lambda>region gameName tagLine w. (Inr stub_summoner, Suc w)),
     iface_GetMatchHistory = (\<lambda>region puuid count w.
       (Inr (Slice (replicate (nat count) (convert_match raw_123))), Suc w))\<rparr>"

definition stub_Decode_matchRequest :: "string \<Rightarrow> matchRequest \<Rightarrow> go_error + matchRequest" where
  "stub_Decode_matchRequest = stub_decode
     [(''by-puuid-count-5'', \<lparr>req_Region = ''na'', req_GameName = '''', req_TagLine = '''',
          req_PUUID = ''test-puuid'', req_Count = 5\<rparr>),
      (''by-puuid-no-count'', \<lparr>req_Region = ''na'', req_GameName = '''', req_TagLine = '''',
          req_PUUID = ''test-puuid'', req_Count = 0\<rparr>),
      (''by-riot-id-count-minus-3'', \<lparr>req_Region = ''euw'', req_GameName = ''Player'',
          req_TagLine = ''NA1'', req_PUUID = '''', req_Count = - 3\<rparr>)]"

definition hst0 :: "nat hstate" where
  "hst0 = \<lparr>hworld = 0, calls = []\<rparr>"

section \<open>Region router: properties\<close>

lemma regionalRouting_keys: "map fst regionalRouting = region_keys"
  by (simp add: regionalRouting_def region_keys_def)

lemma continentalRouting_keys: "set (map fst continentalRouting) = set region_keys"
  by (simp add: continentalRouting_def region_keys_def insert_commute)

lemma getRegionalURL_unknown:
  assumes "region \<notin> set region_keys"
  shows "getRegionalURL region = ''na1.api.riotgames.com''"
proof -
  have "region \<notin> fst ` set regionalRouting"
    using assms regionalRouting_keys by (metis list.set_map)
  then have "map_of regionalRouting region = None"
    by (simp add: map_of_eq_None_iff)
  moreover have "map_index regionalRouting ''na'' = ''na1.api.riotgames.com''"
    by (simp add: map_index_def regionalRouting_def)
  ultimately show ?thesis
    by (simp add: getRegionalURL_def)
qed

lemma getMatchRegionalURL_unknown:
  assumes "region \<notin> set region_keys"
  shows "getMatchRegionalURL region = ''americas.api.riotgames.com''"
proof -
  have "region \<notin> fst ` set continentalRouting"
    using assms continentalRouting_keys by (metis list.set_map)
  then have "map_of continentalRouting region = None"
    by (simp add: map_of_eq_None_iff)
  moreover have "map_index continentalRouting ''na'' = ''americas.api.riotgames.com''"
    by (simp add: map_index_def continentalRouting_def)
  ultimately show ?thesis
    by (simp add: getMatchRegionalURL_def)
qed

lemma getRegionalURL_table:
  "map getRegionalURL region_keys =
     [''na1.api.riotgames.com'', ''euw1.api.riotgames.com'', ''eun1.api.riotgames.com'',
      ''kr.api.riotgames.com'', ''br1.api.riotgames.com'', ''jp1.api.riotgames.com'',
      ''ru.api.riotgames.com'', ''oc1.api.riotgames.com'', ''tr1.api.riotgames.com'',
      ''la1.api.riotgames.com'', ''la2.api.riotgames.com'']"
  by (simp add: region_keys_def getRegionalURL_def regionalRouting_def)

lemma getMatchRegionalURL_table:
  "map getMatchRegionalURL region_keys =
     [''americas.api.riotgames.com'', ''europe.api.riotgames.com'', ''europe.api.riotgames.com'',
      ''asia.api.riotgames.com'', ''americas.api.riotgames.com'', ''asia.api.riotgames.com'',
      ''europe.api.riotgames.com'', ''sea.api.riotgames.com'', ''europe.api.riotgames.com'',
      ''americas.api.riotgames.com'', ''americas.api.riotgames.com'']"
  by (simp add: region_keys_def getMatchRegionalURL_def continentalRouting_def)

text \<open>
  Claim C2. On each of the eleven table keys \<open>getRegionalURL\<close> returns that region's
  platform host and \<open>getMatchRegionalURL\<close> its continental host, with the clustering
  na, br, lan, las to americas; euw, eune, tr, ru to europe; kr, jp to asia; oce to sea.
  On every other string, the empty string included, they return
  \<open>na1.api.riotgames.com\<close> and \<open>americas.api.riotgames.com\<close>. Both are total functions
  of the region alone: they read no state and have no failing branch.
\<close>

theorem C2_region_router:
  "getRegionalURL ''na'' = ''na1.api.riotgames.com''
   \<and> getRegionalURL ''euw'' = ''euw1.api.riotgames.com''
   \<and> getRegionalURL ''eune'' = ''eun1.api.riotgames.com''
   \<and> getRegionalURL ''kr'' = ''kr.api.riotgames.com''
   \<and> getRegionalURL ''br'' = ''br1.api.riotgames.com''
   \<and> getRegionalURL ''jp'' = ''jp1.api.riotgames.com''
   \<and> getRegionalURL ''ru'' = ''ru.api.riotgames.com''
   \<and> getRegionalURL ''oce'' = ''oc1.api.riotgames.com''
   \<and> getRegionalURL ''tr'' = ''tr1.api.riotgames.com''
   \<and> getRegionalURL ''lan'' = ''la1.api.riotgames.com''
   \<and> getRegionalURL ''las'' = ''la2.api.riotgames.com''
   \<and> (\<forall>r \<in> {''na'', ''br'', ''lan'', ''las''}. getMatchRegionalURL r = ''americas.api.riotgames.com'')
   \<and> (\<forall>r \<in> {''euw'', ''eune'', ''tr'', ''ru''}. getMatchRegionalURL r = ''europe.api.riotgames.com'')
   \<and> (\<forall>r \<in> {''kr'', ''jp''}. getMatchRegionalURL r = ''asia.api.riotgames.com'')
   \<and> getMatchRegionalURL ''oce'' = ''sea.api.riotgames.com''
   \<and> (\<forall>region. region \<notin> set region_keys \<longrightarrow>
          getRegionalURL region = ''na1.api.riotgames.com''
          \<and> getMatchRegionalURL region = ''americas.api.riotgames.com'')
   \<and> length region_keys = 11 \<and> distinct region_keys
   \<and> map fst regionalRouting = region_keys
   \<and> set (map fst continentalRouting) = set region_keys"
proof -
  note t1 = getRegionalURL_table [unfolded region_keys_def, simplified]
  note t2 = getMatchRegionalURL_table [unfolded region_keys_def, simplified]
  have keys: "length region_keys = 11 \<and> distinct region_keys"
    by (simp add: region_keys_def)
  show ?thesis
    using t1 t2 keys getRegionalURL_unknown getMatchRegionalURL_unknown
      regionalRouting_keys continentalRouting_keys
    by simp
qed

theorem C2_region_router_witness:
  "'''' \<notin> set region_keys \<and> ''unknown'' \<notin> set region_keys
   \<and> getRegionalURL '''' = ''na1.api.riotgames.com''
   \<and> getMatchRegionalURL '''' = ''americas.api.riotgames.com''
   \<and> getRegionalURL ''unknown'' = ''na1.api.riotgames.com''
   \<and> getMatchRegionalURL ''unknown'' = ''americas.api.riotgames.com''
   \<and> getMatchRegionalURL ''tr'' = ''europe.api.riotgames.com''
   \<and> getMatchRegionalURL ''jp'' = ''asia.api.riotgames.com''
   \<and> getMatchRegionalURL ''las'' = ''americas.api.riotgames.com''"
proof -
  have a: "'''' \<notin> set region_keys" and b: "''unknown'' \<notin> set region_keys"
    by (simp_all add: region_keys_def)
  show ?thesis
    using a b C2_region_router by simp
qed

section \<open>Formatting: properties\<close>

declare digits.simps [simp del]

lemma lt10_cases: "d < (10::nat) \<Longrightarrow> d \<in> {0,1,2,3,4,5,6,7,8,9}"
  by auto

lemma digit_char_in: "d < 10 \<Longrightarrow> digit_char d \<in> set ''0123456789''"
  by (drule lt10_cases) (auto simp: digit_char_def)

lemma digit_char_inj: "d < 10 \<Longrightarrow> d' < 10 \<Longrightarrow> digit_char d = digit_char d' \<Longrightarrow> d = d'"
  by (drule lt10_cases, drule lt10_cases) (auto simp: digit_char_def)

lemma digits_set: "set (digits n) \<subseteq> set ''0123456789''"
proof (induction n rule: digits.induct)
  case (1 n)
  show ?case
  proof (cases "n < 10")
    case True
    then show ?thesis using digit_char_in [of n] by (simp add: digits.simps [of n])
  next
    case False
    have "n mod 10 < 10" by simp
    then have "digit_char (n mod 10) \<in> set ''0123456789''" by (rule digit_char_in)
    with False 1 show ?thesis by (simp add: digits.simps [of n])
  qed
qed

lemma digits_nonempty: "digits n \<noteq> []"
  by (simp add: digits.simps [of n])

lemma digits_inj: "digits n = digits m \<Longrightarrow> n = m"
proof (induction n arbitrary: m rule: digits.induct)
  case (1 n)
  show ?case
  proof (cases "n < 10")
    case True
    note n = this
    show ?thesis
    proof (cases "m < 10")
      case True
      with n 1(2) show ?thesis
        by (simp add: digits.simps [of n] digits.simps [of m] digit_char_inj)
    next
      case False
      with n 1(2) digits_nonempty [of "m div 10"] show ?thesis
        by (simp add: digits.simps [of n] digits.simps [of m])
    qed
  next
    case False
    note n = this
    show ?thesis
    proof (cases "m < 10")
      case True
      with n 1(2) digits_nonempty [of "n div 10"] show ?thesis
        by (simp add: digits.simps [of n] digits.simps [of m])
    next
      case False
      with n 1(2) have eq: "digits (n div 10) = digits (m div 10)"
        and d: "digit_char (n mod 10) = digit_char (m mod 10)"
        by (simp_all add: digits.simps [of n] digits.simps [of m])
      from 1(1) [OF n eq] have "n div 10 = m div 10" .
      moreover from d have "n mod 10 = m mod 10"
        by (intro digit_char_inj) simp_all
      ultimately show ?thesis
        by (metis div_mult_mod_eq)
    qed
  qed
qed

lemma digits_no_minus: "hd (digits n) \<noteq> CHR ''-''"
proof -
  have "hd (digits n) \<in> set (digits n)" using digits_nonempty by simp
  then have "hd (digits n) \<in> set ''0123456789''" using digits_set by blast
  then show ?thesis by auto
qed

lemma fmt_d_inj: "fmt_d i = fmt_d j \<Longrightarrow> i = j"
proof -
  assume eq: "fmt_d i = fmt_d j"
  show ?thesis
  proof (cases "i < 0")
    case True
    note i = this
    show ?thesis
    proof (cases "j < 0")
      case True
      with i eq have "digits (nat (- i)) = digits (nat (- j))" by (simp add: fmt_d_def)
      then have "nat (- i) = nat (- j)" by (rule digits_inj)
      with i True show ?thesis by simp
    next
      case False
      with i eq have "CHR ''-'' # digits (nat (- i)) = digits (nat j)" by (simp add: fmt_d_def)
      then have "hd (digits (nat j)) = CHR ''-''" by (metis list.sel(1))
      with digits_no_minus show ?thesis by blast
    qed
  next
    case False
    note i = this
    show ?thesis
    proof (cases "j < 0")
      case True
      with i eq have "digits (nat i) = CHR ''-'' # digits (nat (- j))" by (simp add: fmt_d_def)
      then have "hd (digits (nat i)) = CHR ''-''" by (metis list.sel(1))
      with digits_no_minus show ?thesis by blast
    next
      case False
      with i eq have "digits (nat i) = digits (nat j)" by (simp add: fmt_d_def)
      then have "nat i = nat j" by (rule digits_inj)
      with i False show ?thesis by simp
    qed
  qed
qed

lemma fmt_d_no_colon: "CHR '':'' \<notin> set (fmt_d i)"
proof -
  have "\<And>n. CHR '':'' \<notin> set (digits n)"
    using digits_set by fastforce
  then show ?thesis by (simp add: fmt_d_def)
qed

lemma takeWhile_upto_colon:
  "CHR '':'' \<notin> set zs \<Longrightarrow> takeWhile (\<lambda>c. c \<noteq> CHR '':'') (zs @ CHR '':'' # ws) = zs"
  by (induction zs) auto

lemma split_at_colon:
  assumes "xs @ CHR '':'' # ys = xs' @ CHR '':'' # ys'"
    and "CHR '':'' \<notin> set xs" and "CHR '':'' \<notin> set xs'"
  shows "xs = xs' \<and> ys = ys'"
proof -
  have "takeWhile (\<lambda>c. c \<noteq> CHR '':'') (xs @ CHR '':'' # ys) = xs"
    using assms(2) by (rule takeWhile_upto_colon)
  moreover have "takeWhile (\<lambda>c. c \<noteq> CHR '':'') (xs' @ CHR '':'' # ys') = xs'"
    using assms(3) by (rule takeWhile_upto_colon)
  ultimately have "xs = xs'" using assms(1) by simp
  with assms(1) show ?thesis by simp
qed

lemma fmt_d_values:
  "fmt_d 1 = ''1''" "fmt_d 2 = ''2''" "fmt_d 10 = ''10''" "fmt_d 201 = ''201''"
  "fmt_d 204 = ''204''" "fmt_d 404 = ''404''" "fmt_d 429 = ''429''"
  by (simp_all add: fmt_d_def digits.simps digit_char_def)

section \<open>Request execution: properties\<close>

lemma makeRequest_parse_fail:
  assumes "url_Parse lib url = Some e"
  shows "makeRequest svc lib Decode url target st
           = (Inl (Errorf_w ''failed to create request: '' e), st)"
  using assms by (simp add: makeRequest_def NewRequest_def)

lemma makeRequest_sent_request:
  assumes "url_Parse lib url = None"
    and "httpClient svc (world st) (riot_request svc url) = (r, w')"
  shows "makeRequest svc lib Decode url target st =
           ((case r of
               Inl e \<Rightarrow> Inl (execute_error e)
             | Inr resp \<Rightarrow>
                 if StatusCode resp \<noteq> 200 then Inl (status_error (StatusCode resp) (Body resp))
                 else (case Decode (Body resp) target of
                         Inl e \<Rightarrow> Inl (decode_error e)
                       | Inr v \<Rightarrow> Inr v)),
            \<lparr>world = w', sent = sent st @ [riot_request svc url]\<rparr>)"
  using assms
  by (simp add: makeRequest_def NewRequest_def Do_def riot_request_def execute_error_def
      status_error_def decode_error_def split: sum.splits)

lemma makeRequest_sent:
  "sent (snd (makeRequest svc lib Decode url target st)) = sent st
   \<or> sent (snd (makeRequest svc lib Decode url target st)) = sent st @ [riot_request svc url]"
proof (cases "url_Parse lib url")
  case (Some e)
  then show ?thesis by (simp add: makeRequest_parse_fail)
next
  case None
  obtain r w' where "httpClient svc (world st) (riot_request svc url) = (r, w')"
    by (cases "httpClient svc (world st) (riot_request svc url)")
  with None show ?thesis by (simp add: makeRequest_sent_request)
qed

lemma makeRequest_Inr_iff:
  "makeRequest svc lib Decode url target st = (Inr v, st') \<longleftrightarrow>
     url_Parse lib url = None
     \<and> (\<exists>resp. httpClient svc (world st) (riot_request svc url) = (Inr resp, world st')
           \<and> StatusCode resp = 200 \<and> Decode (Body resp) target = Inr v)
     \<and> sent st' = sent st @ [riot_request svc url]"
proof (cases "url_Parse lib url")
  case (Some e)
  then show ?thesis by (simp add: makeRequest_parse_fail)
next
  case None
  obtain r w' where h: "httpClient svc (world st) (riot_request svc url) = (r, w')"
    by (cases "httpClient svc (world st) (riot_request svc url)")
  show ?thesis
    using None h
    by (cases st') (auto simp: makeRequest_sent_request split: sum.splits)
qed

lemma status_error_inj:
  assumes "status_error c b = status_error c' b'"
  shows "c = c' \<and> b = b'"
proof -
  from assms have "fmt_d c @ CHR '':'' # CHR '' '' # b = fmt_d c' @ CHR '':'' # CHR '' '' # b'"
    by (simp add: status_error_def)
  then have "fmt_d c = fmt_d c' \<and> CHR '' '' # b = CHR '' '' # b'"
    using fmt_d_no_colon by (intro split_at_colon)
  then show ?thesis using fmt_d_inj by simp
qed

lemma error_kinds_distinct:
  "status_error c b \<noteq> execute_error e"
  "status_error c b \<noteq> decode_error e'"
  "execute_error e \<noteq> decode_error e'"
  "Error (status_error c b) \<noteq> Error (execute_error e)"
  "Error (status_error c b) \<noteq> Error (decode_error e')"
  "Error (execute_error e) \<noteq> Error (decode_error e')"
  by (simp_all add: status_error_def execute_error_def decode_error_def Errorf_w_def)

lemma error_kinds_Unwrap:
  "Unwrap (status_error c b) = None"
  "Unwrap (execute_error e) = Some e"
  "Unwrap (decode_error e) = Some e"
  by (simp_all add: status_error_def execute_error_def decode_error_def Errorf_w_def)

section \<open>The stub provider: evaluation\<close>

lemma stub_parse: "url_Parse stub_lib url = None"
  by (simp add: stub_lib_def)

lemma stub_request: "riot_request stub_svc url
    = \<lparr>Method = ''GET'', URL = url, Header = [(''X-Riot-Token'', ''test-api-key'')]\<rparr>"
  by (simp add: riot_request_def Header_Add_def stub_svc_def)

lemma stub_client: "httpClient stub_svc w (riot_request stub_svc url)
    = (case map_of stub_table url of
         Some r \<Rightarrow> (r, Suc w)
       | None \<Rightarrow> (Inr \<lparr>StatusCode = 404, Body = ''Not found''\<rparr>, Suc w))"
  by (simp add: stub_request) (simp add: stub_svc_def stub_provider_def)

lemma stub_created: "httpClient stub_svc w (riot_request stub_svc ''http://stub/created'')
    = (Inr \<lparr>StatusCode = 201, Body = ''{}''\<rparr>, Suc w)"
  by (simp add: stub_client stub_table_def)

lemma stub_nocontent: "httpClient stub_svc w (riot_request stub_svc ''http://stub/nocontent'')
    = (Inr \<lparr>StatusCode = 204, Body = ''''\<rparr>, Suc w)"
  by (simp add: stub_client stub_table_def)

lemma stub_ok: "httpClient stub_svc w (riot_request stub_svc ''http://stub/ok'')
    = (Inr \<lparr>StatusCode = 200, Body = ''{}''\<rparr>, Suc w)"
  by (simp add: stub_client stub_table_def)

lemma stub_limited: "httpClient stub_svc w (riot_request stub_svc ''http://stub/limited'')
    = (Inr \<lparr>StatusCode = 429, Body = ''Rate limit exceeded''\<rparr>, Suc w)"
  by (simp add: stub_client stub_table_def)

lemma stub_down: "httpClient stub_svc w (riot_request stub_svc ''http://stub/down'')
    = (Inl (errorString ''connection refused''), Suc w)"
  by (simp add: stub_client stub_table_def)

lemma stub_garbage: "httpClient stub_svc w (riot_request stub_svc ''http://stub/garbage'')
    = (Inr \<lparr>StatusCode = 200, Body = ''invalid json''\<rparr>, Suc w)"
  by (simp add: stub_client stub_table_def)

lemma stub_created_garbage:
  "httpClient stub_svc w (riot_request stub_svc ''http://stub/created-garbage'')
    = (Inr \<lparr>StatusCode = 201, Body = ''invalid json''\<rparr>, Suc w)"
  by (simp add: stub_client stub_table_def)

lemma stub_ok_request:
  "makeRequest stub_svc stub_lib (Decode_rawMatch stub_lib) ''http://stub/ok'' rawMatch_zero st0
     = (Inr rawMatch_zero, \<lparr>world = 1, sent = [riot_request stub_svc ''http://stub/ok'']\<rparr>)"
  by (simp add: makeRequest_sent_request [OF stub_parse stub_ok] st0_def)
     (simp add: stub_lib_def stub_decode_def)

lemma stub_garbage_decode:
  "Decode_rawMatch stub_lib ''invalid json'' rawMatch_zero = Inl (errorString ''invalid character'')"
  by (simp add: stub_lib_def stub_decode_def stub_lookup_def)

section \<open>Request execution: the claims\<close>

text \<open>
  Claim C10. \<open>makeRequest\<close> returns an error for every response whose status code is
  not exactly 200, other success codes such as 201 and 204 included: the error built from
  the status and the body. Only a response with status 200 can produce a successful
  result.
\<close>

theorem C10_only_status_200_succeeds:
  fixes svc :: "'w RiotService" and Decode :: "string \<Rightarrow> 't \<Rightarrow> go_error + 't"
  shows "(url_Parse lib url = None
          \<and> httpClient svc (world st) (riot_request svc url) = (Inr resp, w')
          \<and> StatusCode resp \<noteq> 200
          \<longrightarrow> makeRequest svc lib Decode url target st
                = (Inl (status_error (StatusCode resp) (Body resp)),
                   \<lparr>world = w', sent = sent st @ [riot_request svc url]\<rparr>))
       \<and> (makeRequest svc lib Decode url target st = (Inr v, st')
          \<longrightarrow> (\<exists>resp'. httpClient svc (world st) (riot_request svc url) = (Inr resp', world st')
                  \<and> StatusCode resp' = 200))"
proof (intro conjI impI)
  assume "url_Parse lib url = None
          \<and> httpClient svc (world st) (riot_request svc url) = (Inr resp, w')
          \<and> StatusCode resp \<noteq> 200"
  then show "makeRequest svc lib Decode url target st
                = (Inl (status_error (StatusCode resp) (Body resp)),
                   \<lparr>world = w', sent = sent st @ [riot_request svc url]\<rparr>)"
    by (simp add: makeRequest_sent_request)
next
  assume "makeRequest svc lib Decode url target st = (Inr v, st')"
  then show "\<exists>resp'. httpClient svc (world st) (riot_request svc url) = (Inr resp', world st')
                  \<and> StatusCode resp' = 200"
    unfolding makeRequest_Inr_iff by blast
qed

theorem C10_only_status_200_succeeds_witness:
  "makeRequest stub_svc stub_lib (Decode_rawMatch stub_lib) ''http://stub/created'' rawMatch_zero st0
     = (Inl (errorString ''API request failed with status 201: {}''),
        \<lparr>world = 1, sent = [riot_request stub_svc ''http://stub/created'']\<rparr>)
   \<and> makeRequest stub_svc stub_lib (Decode_rawMatch stub_lib) ''http://stub/nocontent'' rawMatch_zero st0
     = (Inl (errorString ''API request failed with status 204: ''),
        \<lparr>world = 1, sent = [riot_request stub_svc ''http://stub/nocontent'']\<rparr>)
   \<and> makeRequest stub_svc stub_lib (Decode_rawMatch stub_lib) ''http://stub/ok'' rawMatch_zero st0
     = (Inr rawMatch_zero, \<lparr>world = 1, sent = [riot_request stub_svc ''http://stub/ok'']\<rparr>)
   \<and> (\<exists>resp'. httpClient stub_svc (world st0) (riot_request stub_svc ''http://stub/ok'')
                  = (Inr resp', 1) \<and> StatusCode resp' = 200)"
  using
    C10_only_status_200_succeeds [of stub_lib "''http://stub/created''" stub_svc st0
      "\<lparr>StatusCode = 201, Body = ''{}''\<rparr>" 1 "Decode_rawMatch stub_lib" rawMatch_zero]
    C10_only_status_200_succeeds [of stub_lib "''http://stub/nocontent''" stub_svc st0
      "\<lparr>StatusCode = 204, Body = ''''\<rparr>" 1 "Decode_rawMatch stub_lib" rawMatch_zero]
    C10_only_status_200_succeeds [of stub_lib "''http://stub/ok''" stub_svc st0 _ _
      "Decode_rawMatch stub_lib" rawMatch_zero rawMatch_zero
      "\<lparr>world = 1, sent = [riot_request stub_svc ''http://stub/ok'']\<rparr>"]
    stub_ok_request
  by (simp add: stub_parse stub_created stub_nocontent st0_def status_error_def fmt_d_values)

text \<open>
  Claim C6, as the code has it. For every call of \<open>makeRequest\<close> that sends its request:
  a response with a status outside 200..299 (429, say) yields the status error, and status
  code and body are determined by that error (two status errors are equal only if both
  agree); a transport failure without a response yields the execute error, which wraps the
  transport's error and is never a status error; a response with status 200 whose body the
  decoder rejects yields the decode error, which wraps the decoder's error. The three
  errors are pairwise different, as values and as messages. These are what the
  specification calls UpstreamError, TransportError and DecodeError. The decode error
  arises for status 200 only: the status is tested before the body is read, so that a
  response with any other status, 201 and 204 included, yields the status error whatever
  its body is, also when the decoder would reject it.
\<close>

theorem C6_error_kinds:
  fixes svc :: "'w RiotService" and Decode :: "string \<Rightarrow> 't \<Rightarrow> go_error + 't"
  assumes "url_Parse lib url = None"
    and "httpClient svc (world st) (riot_request svc url) = (r, w')"
  shows "(\<forall>resp. r = Inr resp \<and> (StatusCode resp < 200 \<or> 300 \<le> StatusCode resp) \<longrightarrow>
            fst (makeRequest svc lib Decode url target st)
              = Inl (status_error (StatusCode resp) (Body resp)))
       \<and> (\<forall>e. r = Inl e \<longrightarrow>
            fst (makeRequest svc lib Decode url target st) = Inl (execute_error e))
       \<and> (\<forall>resp e. r = Inr resp \<and> StatusCode resp = 200 \<and> Decode (Body resp) target = Inl e \<longrightarrow>
            fst (makeRequest svc lib Decode url target st) = Inl (decode_error e))
       \<and> (\<forall>c b c' b'. status_error c b = status_error c' b' \<longrightarrow> c = c' \<and> b = b')
       \<and> (\<forall>c b. Error (status_error c b)
                   = ''API request failed with status '' @ fmt_d c @ '': '' @ b)
       \<and> (\<forall>e. Unwrap (execute_error e) = Some e \<and> Unwrap (decode_error e) = Some e)
       \<and> (\<forall>c b e e'.
             status_error c b \<noteq> execute_error e
             \<and> status_error c b \<noteq> decode_error e'
             \<and> execute_error e \<noteq> decode_error e'
             \<and> Error (status_error c b) \<noteq> Error (execute_error e)
             \<and> Error (status_error c b) \<noteq> Error (decode_error e')
             \<and> Error (execute_error e) \<noteq> Error (decode_error e'))
       \<and> (\<forall>resp. r = Inr resp \<and> StatusCode resp \<noteq> 200 \<longrightarrow>
            fst (makeRequest svc lib Decode url target st)
              = Inl (status_error (StatusCode resp) (Body resp)))"
proof -
  note mr = makeRequest_sent_request [OF assms, of Decode target]
  have a: "\<forall>resp. r = Inr resp \<and> (StatusCode resp < 200 \<or> 300 \<le> StatusCode resp) \<longrightarrow>
            fst (makeRequest svc lib Decode url target st)
              = Inl (status_error (StatusCode resp) (Body resp))"
    by (auto simp: mr)
  have b: "\<forall>e. r = Inl e \<longrightarrow>
            fst (makeRequest svc lib Decode url target st) = Inl (execute_error e)"
    by (simp add: mr)
  have c: "\<forall>resp e. r = Inr resp \<and> StatusCode resp = 200 \<and> Decode (Body resp) target = Inl e \<longrightarrow>
            fst (makeRequest svc lib Decode url target st) = Inl (decode_error e)"
    by (simp add: mr)
  have d: "\<forall>c b c' b'. status_error c b = status_error c' b' \<longrightarrow> c = c' \<and> b = b'"
    using status_error_inj by blast
  have e: "\<forall>c b. Error (status_error c b)
                   = ''API request failed with status '' @ fmt_d c @ '': '' @ b"
    by (simp add: status_error_def)
  have f: "\<forall>e. Unwrap (execute_error e) = Some e \<and> Unwrap (decode_error e) = Some e"
    by (simp add: error_kinds_Unwrap)
  have g: "\<forall>c b e e'.
             status_error c b \<noteq> execute_error e
             \<and> status_error c b \<noteq> decode_error e'
             \<and> execute_error e \<noteq> decode_error e'
             \<and> Error (status_error c b) \<noteq> Error (execute_error e)
             \<and> Error (status_error c b) \<noteq> Error (decode_error e')
             \<and> Error (execute_error e) \<noteq> Error (decode_error e')"
    using error_kinds_distinct by blast
  have h: "\<forall>resp. r = Inr resp \<and> StatusCode resp \<noteq> 200 \<longrightarrow>
            fst (makeRequest svc lib Decode url target st)
              = Inl (status_error (StatusCode resp) (Body resp))"
    by (simp add: mr)
  from a b c d e f g h show ?thesis by blast
qed

theorem C6_error_kinds_witness:
  "fst (makeRequest stub_svc stub_lib (Decode_rawMatch stub_lib) ''http://stub/limited'' rawMatch_zero st0)
     = Inl (errorString ''API request failed with status 429: Rate limit exceeded'')
   \<and> fst (makeRequest stub_svc stub_lib (Decode_rawMatch stub_lib) ''http://stub/down'' rawMatch_zero st0)
     = Inl (wrapError ''failed to execute request: connection refused''
              (errorString ''connection refused''))
   \<and> fst (makeRequest stub_svc stub_lib (Decode_rawMatch stub_lib) ''http://stub/garbage'' rawMatch_zero st0)
     = Inl (wrapError ''failed to decode response: invalid character''
              (errorString ''invalid character''))
   \<and> fst (makeRequest stub_svc stub_lib (Decode_rawMatch stub_lib) ''http://stub/created-garbage''
            rawMatch_zero st0)
     = Inl (errorString ''API request failed with status 201: invalid json'')"
proof -
  note limited = C6_error_kinds [where st = st0 and Decode = "Decode_rawMatch stub_lib"
      and target = rawMatch_zero, OF stub_parse stub_limited, THEN conjunct1, rule_format,
      of "\<lparr>StatusCode = 429, Body = ''Rate limit exceeded''\<rparr>"]
  note down = C6_error_kinds [where st = st0 and Decode = "Decode_rawMatch stub_lib"
      and target = rawMatch_zero, OF stub_parse stub_down, THEN conjunct2, THEN conjunct1,
      rule_format, of "errorString ''connection refused''"]
  note garbage = C6_error_kinds [where st = st0 and Decode = "Decode_rawMatch stub_lib"
      and target = rawMatch_zero, OF stub_parse stub_garbage, THEN conjunct2, THEN conjunct2,
      THEN conjunct1, rule_format, of "\<lparr>StatusCode = 200, Body = ''invalid json''\<rparr>"
      "errorString ''invalid character''"]
  have 1: "fst (makeRequest stub_svc stub_lib (Decode_rawMatch stub_lib) ''http://stub/limited'' rawMatch_zero st0)
     = Inl (errorString ''API request failed with status 429: Rate limit exceeded'')"
    using limited by (simp add: status_error_def fmt_d_values)
  have 2: "fst (makeRequest stub_svc stub_lib (Decode_rawMatch stub_lib) ''http://stub/down'' rawMatch_zero st0)
     = Inl (wrapError ''failed to execute request: connection refused''
              (errorString ''connection refused''))"
    using down by (simp add: execute_error_def Errorf_w_def)
  have 3: "fst (makeRequest stub_svc stub_lib (Decode_rawMatch stub_lib) ''http://stub/garbage'' rawMatch_zero st0)
     = Inl (wrapError ''failed to decode response: invalid character''
              (errorString ''invalid character''))"
    using garbage stub_garbage_decode by (simp add: decode_error_def Errorf_w_def)
  note created = C6_error_kinds [where st = st0 and Decode = "Decode_rawMatch stub_lib"
      and target = rawMatch_zero, OF stub_parse stub_created_garbage, THEN conjunct2,
      THEN conjunct2, THEN conjunct2, THEN conjunct2, THEN conjunct2, THEN conjunct2,
      THEN conjunct2, rule_format, of "\<lparr>StatusCode = 201, Body = ''invalid json''\<rparr>"]
  have 4: "fst (makeRequest stub_svc stub_lib (Decode_rawMatch stub_lib)
                  ''http://stub/created-garbage'' rawMatch_zero st0)
     = Inl (errorString ''API request failed with status 201: invalid json'')"
    using created by (simp add: status_error_def fmt_d_values)
  from 1 2 3 4 show ?thesis by (intro conjI)
qed

text \<open>The claim as stated fails for the decode error: a body that does not parse yields
  the decode error only under status 200. Here the provider answers 201 with a body that
  the decoder rejects, and \<open>makeRequest\<close> returns the status error.\<close>

theorem C6_decode_error_needs_status_200_counterexample:
  "httpClient stub_svc (world st0) (riot_request stub_svc ''http://stub/created-garbage'')
     = (Inr \<lparr>StatusCode = 201, Body = ''invalid json''\<rparr>, 1)
   \<and> Decode_rawMatch stub_lib ''invalid json'' rawMatch_zero
     = Inl (errorString ''invalid character'')
   \<and> fst (makeRequest stub_svc stub_lib (Decode_rawMatch stub_lib) ''http://stub/created-garbage''
            rawMatch_zero st0)
     = Inl (errorString ''API request failed with status 201: invalid json'')
   \<and> fst (makeRequest stub_svc stub_lib (Decode_rawMatch stub_lib) ''http://stub/created-garbage''
            rawMatch_zero st0)
     \<noteq> Inl (decode_error (errorString ''invalid character''))"
proof -
  have 1: "httpClient stub_svc (world st0) (riot_request stub_svc ''http://stub/created-garbage'')
     = (Inr \<lparr>StatusCode = 201, Body = ''invalid json''\<rparr>, 1)"
    by (simp add: stub_created_garbage st0_def)
  have 2: "fst (makeRequest stub_svc stub_lib (Decode_rawMatch stub_lib)
                  ''http://stub/created-garbage'' rawMatch_zero st0)
     = Inl (errorString ''API request failed with status 201: invalid json'')"
    by (simp add: makeRequest_sent_request [OF stub_parse stub_created_garbage]
        status_error_def fmt_d_values)
  have 3: "fst (makeRequest stub_svc stub_lib (Decode_rawMatch stub_lib)
                  ''http://stub/created-garbage'' rawMatch_zero st0)
     \<noteq> Inl (decode_error (errorString ''invalid character''))"
    by (simp only: 2) (simp add: decode_error_def Errorf_w_def)
  from 1 stub_garbage_decode 2 3 show ?thesis by (intro conjI)
qed

section \<open>Match normalization: properties\<close>

lemma smod_1000_bounds:
  fixes m :: int
  shows "(0 \<le> m \<longrightarrow> 0 \<le> m smod 1000 \<and> m smod 1000 < 1000)
       \<and> (m < 0 \<longrightarrow> - 1000 < m smod 1000 \<and> m smod 1000 \<le> 0)"
proof -
  have "0 \<le> \<bar>m\<bar> mod 1000" and "\<bar>m\<bar> mod 1000 < 1000"
    by simp_all
  then show ?thesis
    by (simp add: signed_modulo_int_def sgn_if)
qed

lemma sdiv_small:
  fixes a :: int
  assumes "\<bar>a\<bar> < 1000000000"
  shows "a sdiv 1000000000 = 0"
  using assms by (simp add: signed_divide_int_def div_pos_pos_trivial)

lemma UnixMilli_parts:
  "unix_sec (UnixMilli msec) = msec sdiv 1000 - (if msec smod 1000 < 0 then 1 else 0)"
  "unix_nsec (UnixMilli msec)
     = (msec smod 1000) * 1000000 + (if msec smod 1000 < 0 then 1000000000 else 0)"
proof -
  define r where "r = msec smod 1000"
  have bounds: "- 1000 < r" "r < 1000"
    using smod_1000_bounds [of msec] unfolding r_def by auto
  then have small: "\<bar>r * 1000000\<bar> < 1000000000"
    by (simp add: abs_if)
  have n0: "(r * 1000000) sdiv 1000000000 = 0"
    using small by (rule sdiv_small)
  have lt: "r * 1000000 < 1000000000"
    using bounds by simp
  show "unix_sec (UnixMilli msec) = msec sdiv 1000 - (if msec smod 1000 < 0 then 1 else 0)"
    using lt by (simp add: UnixMilli_def Unix_def Let_def r_def [symmetric] n0)
  show "unix_nsec (UnixMilli msec)
     = (msec smod 1000) * 1000000 + (if msec smod 1000 < 0 then 1000000000 else 0)"
    using lt by (simp add: UnixMilli_def Unix_def Let_def r_def [symmetric] n0)
qed

lemma UnixMilli_instant: "UnixNano (UnixMilli msec) = msec * 1000000"
proof -
  have "msec sdiv 1000 * 1000 + msec smod 1000 = msec"
    by (rule sdiv_mult_smod_eq)
  then have "msec * 1000000 = (msec sdiv 1000) * 1000000000 + (msec smod 1000) * 1000000"
    by (simp add: algebra_simps)
  then show ?thesis
    by (simp add: UnixNano_def UnixMilli_parts algebra_simps)
qed

lemma UnixMilli_nsec_range:
  "0 \<le> unix_nsec (UnixMilli msec) \<and> unix_nsec (UnixMilli msec) < 1000000000"
  using smod_1000_bounds [of msec]
  by (cases "msec < 0") (auto simp: UnixMilli_parts)

lemma take_Suc_update:
  "i < length xs \<Longrightarrow> take (Suc i) (xs[i := v]) = take i xs @ [v]"
  by (simp add: take_Suc_conv_app_nth)

lemma participants_loop_gen:
  "length out = i + length ps
     \<Longrightarrow> participants_loop ps i out = take i out @ map convert_participant ps"
proof (induction ps arbitrary: i out)
  case Nil
  then show ?case by simp
next
  case (Cons p ps)
  from Cons.prems have i: "i < length out" by simp
  have "length (out[i := convert_participant p]) = Suc i + length ps"
    using Cons.prems by simp
  from Cons.IH [OF this] i show ?case
    by (simp add: take_Suc_update)
qed

lemma participants_loop_map:
  "participants_loop ps 0 (replicate (length ps) z) = map convert_participant ps"
  using participants_loop_gen [of "replicate (length ps) z" 0 ps] by simp

lemma convert_match_Participants:
  "Participants (convert_match raw)
     = Slice (map convert_participant (elems (raw_Participants (Info raw))))"
  by (simp add: convert_match_def Let_def len_def participants_loop_map)

lemma convert_match_fields:
  "MatchID (convert_match raw) = raw_MatchID (Metadata raw)"
  "GameCreation (convert_match raw) = UnixMilli (raw_GameCreation (Info raw))"
  "GameDuration (convert_match raw) = raw_GameDuration (Info raw)"
  "GameMode (convert_match raw) = raw_GameMode (Info raw)"
  "GameType (convert_match raw) = raw_GameType (Info raw)"
  by (simp_all add: convert_match_def Let_def)

lemma UnixMilli_0: "UnixMilli 0 = \<lparr>unix_sec = 0, unix_nsec = 0\<rparr>"
  by (simp add: UnixMilli_def Unix_def)

lemma convert_match_zero:
  "convert_match rawMatch_zero = \<lparr>MatchID = '''', GameCreation = \<lparr>unix_sec = 0, unix_nsec = 0\<rparr>,
     GameDuration = 0, GameMode = '''', GameType = '''', Participants = Slice []\<rparr>"
  by (simp add: convert_match_def rawMatch_zero_def len_def UnixMilli_0)

lemma GetMatchDetails_Inr:
  assumes "makeRequest svc lib (Decode_rawMatch lib) (matchDetailsURL svc region matchID)
             rawMatch_zero st = (Inr raw, st')"
  shows "GetMatchDetails svc lib region matchID st = (Inr (convert_match raw), st')"
  using assms by (simp add: GetMatchDetails_def)

lemma GetMatchDetails_Inl:
  assumes "makeRequest svc lib (Decode_rawMatch lib) (matchDetailsURL svc region matchID)
             rawMatch_zero st = (Inl e, st')"
  shows "GetMatchDetails svc lib region matchID st
           = (Inl (Errorf_w ''failed to get match details: '' e), st')"
  using assms by (simp add: GetMatchDetails_def)

lemma GetMatchDetails_Inr_iff:
  "GetMatchDetails svc lib region matchID st = (Inr m, st') \<longleftrightarrow>
     (\<exists>raw. makeRequest svc lib (Decode_rawMatch lib) (matchDetailsURL svc region matchID)
               rawMatch_zero st = (Inr raw, st') \<and> m = convert_match raw)"
  by (auto simp: GetMatchDetails_def split: prod.splits sum.splits)

lemma convert_participant_nth:
  assumes "i < length ps"
  shows "PUUID (map convert_participant ps ! i) = raw_PUUID (ps ! i)
       \<and> SummonerName (map convert_participant ps ! i) = raw_SummonerName (ps ! i)
       \<and> ChampionID (map convert_participant ps ! i) = raw_ChampionID (ps ! i)
       \<and> ChampionName (map convert_participant ps ! i) = raw_ChampionName (ps ! i)
       \<and> Kills (map convert_participant ps ! i) = raw_Kills (ps ! i)
       \<and> Deaths (map convert_participant ps ! i) = raw_Deaths (ps ! i)
       \<and> Assists (map convert_participant ps ! i) = raw_Assists (ps ! i)
       \<and> GoldEarned (map convert_participant ps ! i) = raw_GoldEarned (ps ! i)
       \<and> TotalDamageDealtToChampions (map convert_participant ps ! i)
           = raw_TotalDamageDealtToChampions (ps ! i)
       \<and> TotalDamageTaken (map convert_participant ps ! i) = raw_TotalDamageTaken (ps ! i)
       \<and> VisionScore (map convert_participant ps ! i) = raw_VisionScore (ps ! i)
       \<and> TotalMinionsKilled (map convert_participant ps ! i) = raw_TotalMinionsKilled (ps ! i)
       \<and> Win (map convert_participant ps ! i) = raw_Win (ps ! i)
       \<and> TeamPosition (map convert_participant ps ! i) = raw_TeamPosition (ps ! i)"
  using assms by (simp add: convert_participant_def)

lemma stub_makeRequest:
  "makeRequest stub_svc stub_lib Decode url target st =
     ((case (case map_of stub_table url of
               Some r \<Rightarrow> r
             | None \<Rightarrow> Inr \<lparr>StatusCode = 404, Body = ''Not found''\<rparr>) of
         Inl e \<Rightarrow> Inl (execute_error e)
       | Inr resp \<Rightarrow>
           if StatusCode resp \<noteq> 200 then Inl (status_error (StatusCode resp) (Body resp))
           else (case Decode (Body resp) target of
                   Inl e \<Rightarrow> Inl (decode_error e)
                 | Inr v \<Rightarrow> Inr v)),
      \<lparr>world = Suc (world st), sent = sent st @ [riot_request stub_svc url]\<rparr>)"
proof (cases "map_of stub_table url")
  case None
  then have "httpClient stub_svc (world st) (riot_request stub_svc url)
      = (Inr \<lparr>StatusCode = 404, Body = ''Not found''\<rparr>, Suc (world st))"
    by (simp add: stub_client)
  from makeRequest_sent_request [OF stub_parse this] None show ?thesis by simp
next
  case (Some r)
  then have "httpClient stub_svc (world st) (riot_request stub_svc url) = (r, Suc (world st))"
    by (simp add: stub_client)
  from makeRequest_sent_request [OF stub_parse this] Some show ?thesis by simp
qed

lemma stub_matchDetailsURL:
  "matchDetailsURL stub_svc region matchID = ''http://stub/lol/match/v5/matches/'' @ matchID"
  by (simp add: matchDetailsURL_def buildURL_def stub_svc_def)

lemma stub_Decode_rawMatch:
  "Decode_rawMatch stub_lib ''match-123'' target = Inr raw_123"
  "Decode_rawMatch stub_lib ''match-125'' target = Inr raw_125"
  "Decode_rawMatch stub_lib ''{}'' target = Inr target"
  by (simp_all add: stub_lib_def stub_decode_def stub_lookup_def)

lemma stub_request_123:
  "makeRequest stub_svc stub_lib (Decode_rawMatch stub_lib)
       (matchDetailsURL stub_svc region ''NA1_123'') rawMatch_zero st
     = (Inr raw_123, \<lparr>world = Suc (world st),
          sent = sent st @ [riot_request stub_svc ''http://stub/lol/match/v5/matches/NA1_123'']\<rparr>)"
  by (simp add: stub_matchDetailsURL stub_makeRequest)
     (simp add: stub_table_def stub_Decode_rawMatch)

lemma stub_request_124:
  "makeRequest stub_svc stub_lib (Decode_rawMatch stub_lib)
       (matchDetailsURL stub_svc region ''NA1_124'') rawMatch_zero st
     = (Inl (status_error 404 ''Not found''), \<lparr>world = Suc (world st),
          sent = sent st @ [riot_request stub_svc ''http://stub/lol/match/v5/matches/NA1_124'']\<rparr>)"
  by (simp add: stub_matchDetailsURL stub_makeRequest)
     (simp add: stub_table_def)

lemma stub_request_125:
  "makeRequest stub_svc stub_lib (Decode_rawMatch stub_lib)
       (matchDetailsURL stub_svc region ''NA1_125'') rawMatch_zero st
     = (Inr raw_125, \<lparr>world = Suc (world st),
          sent = sent st @ [riot_request stub_svc ''http://stub/lol/match/v5/matches/NA1_125'']\<rparr>)"
  by (simp add: stub_matchDetailsURL stub_makeRequest)
     (simp add: stub_table_def stub_Decode_rawMatch)

lemma stub_request_126:
  "makeRequest stub_svc stub_lib (Decode_rawMatch stub_lib)
       (matchDetailsURL stub_svc region ''NA1_126'') rawMatch_zero st
     = (Inr rawMatch_zero, \<lparr>world = Suc (world st),
          sent = sent st @ [riot_request stub_svc ''http://stub/lol/match/v5/matches/NA1_126'']\<rparr>)"
  by (simp add: stub_matchDetailsURL stub_makeRequest)
     (simp add: stub_table_def stub_Decode_rawMatch)

lemma UnixMilli_examples:
  "UnixMilli 1700000000000 = \<lparr>unix_sec = 1700000000, unix_nsec = 0\<rparr>"
  "UnixMilli (- 1) = \<lparr>unix_sec = - 1, unix_nsec = 999000000\<rparr>"
  by (simp_all add: UnixMilli_def Unix_def Let_def signed_divide_int_def signed_modulo_int_def)

section \<open>Match normalization: the claim\<close>

text \<open>
  Claim C7. Whatever raw match the decoder leaves in the zero-initialised target,
  \<open>GetMatchDetails\<close> returns it normalized, with no validation in between: the matchId,
  duration, mode and type are copied; \<open>GameCreation\<close> is the instant that many
  milliseconds after the Unix epoch, to the nanosecond (\<open>1700000000000\<close> becomes
  1700000000 seconds and 0 nanoseconds); every participant is copied field by field, in
  order; with no raw participants (a \<^verbatim>\<open>nil\<close> or an empty raw slice) the participant
  sequence is the empty, non-nil slice; and fields the decoder did not set keep their zero
  value: when nothing was set, the result is the all-zero match, again with an empty non-nil
  participant slice.
\<close>

theorem C7_match_normalization:
  assumes "makeRequest svc lib (Decode_rawMatch lib) (matchDetailsURL svc region matchID)
             rawMatch_zero st = (Inr raw, st')"
  shows "\<exists>m. GetMatchDetails svc lib region matchID st = (Inr m, st')
     \<and> MatchID m = raw_MatchID (Metadata raw)
     \<and> GameCreation m = UnixMilli (raw_GameCreation (Info raw))
     \<and> UnixNano (GameCreation m) = raw_GameCreation (Info raw) * 1000000
     \<and> 0 \<le> unix_nsec (GameCreation m) \<and> unix_nsec (GameCreation m) < 1000000000
     \<and> (raw_GameCreation (Info raw) = 1700000000000
          \<longrightarrow> GameCreation m = \<lparr>unix_sec = 1700000000, unix_nsec = 0\<rparr>)
     \<and> GameDuration m = raw_GameDuration (Info raw)
     \<and> GameMode m = raw_GameMode (Info raw)
     \<and> GameType m = raw_GameType (Info raw)
     \<and> Participants m \<noteq> NilSlice
     \<and> len (Participants m) = len (raw_Participants (Info raw))
     \<and> (\<forall>i < len (raw_Participants (Info raw)).
           PUUID (elems (Participants m) ! i) = raw_PUUID (elems (raw_Participants (Info raw)) ! i)
         \<and> SummonerName (elems (Participants m) ! i)
             = raw_SummonerName (elems (raw_Participants (Info raw)) ! i)
         \<and> ChampionID (elems (Participants m) ! i)
             = raw_ChampionID (elems (raw_Participants (Info raw)) ! i)
         \<and> ChampionName (elems (Participants m) ! i)
             = raw_ChampionName (elems (raw_Participants (Info raw)) ! i)
         \<and> Kills (elems (Participants m) ! i) = raw_Kills (elems (raw_Participants (Info raw)) ! i)
         \<and> Deaths (elems (Participants m) ! i) = raw_Deaths (elems (raw_Participants (Info raw)) ! i)
         \<and> Assists (elems (Participants m) ! i)
             = raw_Assists (elems (raw_Participants (Info raw)) ! i)
         \<and> GoldEarned (elems (Participants m) ! i)
             = raw_GoldEarned (elems (raw_Participants (Info raw)) ! i)
         \<and> TotalDamageDealtToChampions (elems (Participants m) ! i)
             = raw_TotalDamageDealtToChampions (elems (raw_Participants (Info raw)) ! i)
         \<and> TotalDamageTaken (elems (Participants m) ! i)
             = raw_TotalDamageTaken (elems (raw_Participants (Info raw)) ! i)
         \<and> VisionScore (elems (Participants m) ! i)
             = raw_VisionScore (elems (raw_Participants (Info raw)) ! i)
         \<and> TotalMinionsKilled (elems (Participants m) ! i)
             = raw_TotalMinionsKilled (elems (raw_Participants (Info raw)) ! i)
         \<and> Win (elems (Participants m) ! i) = raw_Win (elems (raw_Participants (Info raw)) ! i)
         \<and> TeamPosition (elems (Participants m) ! i)
             = raw_TeamPosition (elems (raw_Participants (Info raw)) ! i))
     \<and> (len (raw_Participants (Info raw)) = 0 \<longrightarrow> Participants m = Slice [])
     \<and> (raw = rawMatch_zero \<longrightarrow>
          m = \<lparr>MatchID = '''', GameCreation = \<lparr>unix_sec = 0, unix_nsec = 0\<rparr>, GameDuration = 0,
               GameMode = '''', GameType = '''', Participants = Slice []\<rparr>)"
proof -
  let ?m = "convert_match raw"
  let ?ps = "elems (raw_Participants (Info raw))"
  have ret: "GetMatchDetails svc lib region matchID st = (Inr ?m, st')"
    using assms by (rule GetMatchDetails_Inr)
  have scalars: "MatchID ?m = raw_MatchID (Metadata raw)"
    "GameCreation ?m = UnixMilli (raw_GameCreation (Info raw))"
    "GameDuration ?m = raw_GameDuration (Info raw)"
    "GameMode ?m = raw_GameMode (Info raw)"
    "GameType ?m = raw_GameType (Info raw)"
    by (rule convert_match_fields)+
  have instant: "UnixNano (GameCreation ?m) = raw_GameCreation (Info raw) * 1000000"
    by (simp only: scalars UnixMilli_instant)
  have range: "0 \<le> unix_nsec (GameCreation ?m)" "unix_nsec (GameCreation ?m) < 1000000000"
    using UnixMilli_nsec_range by (simp_all only: scalars)
  have example: "raw_GameCreation (Info raw) = 1700000000000
          \<longrightarrow> GameCreation ?m = \<lparr>unix_sec = 1700000000, unix_nsec = 0\<rparr>"
    by (simp add: scalars UnixMilli_examples)
  have ps: "Participants ?m = Slice (map convert_participant ?ps)"
    by (rule convert_match_Participants)
  then have shape: "Participants ?m \<noteq> NilSlice"
    "len (Participants ?m) = len (raw_Participants (Info raw))"
    "len (raw_Participants (Info raw)) = 0 \<longrightarrow> Participants ?m = Slice []"
    by (simp_all add: len_def)
  have fields: "\<forall>i < len (raw_Participants (Info raw)).
           PUUID (elems (Participants ?m) ! i) = raw_PUUID (?ps ! i)
         \<and> SummonerName (elems (Participants ?m) ! i) = raw_SummonerName (?ps ! i)
         \<and> ChampionID (elems (Participants ?m) ! i) = raw_ChampionID (?ps ! i)
         \<and> ChampionName (elems (Participants ?m) ! i) = raw_ChampionName (?ps ! i)
         \<and> Kills (elems (Participants ?m) ! i) = raw_Kills (?ps ! i)
         \<and> Deaths (elems (Participants ?m) ! i) = raw_Deaths (?ps ! i)
         \<and> Assists (elems (Participants ?m) ! i) = raw_Assists (?ps ! i)
         \<and> GoldEarned (elems (Participants ?m) ! i) = raw_GoldEarned (?ps ! i)
         \<and> TotalDamageDealtToChampions (elems (Participants ?m) ! i)
             = raw_TotalDamageDealtToChampions (?ps ! i)
         \<and> TotalDamageTaken (elems (Participants ?m) ! i) = raw_TotalDamageTaken (?ps ! i)
         \<and> VisionScore (elems (Participants ?m) ! i) = raw_VisionScore (?ps ! i)
         \<and> TotalMinionsKilled (elems (Participants ?m) ! i) = raw_TotalMinionsKilled (?ps ! i)
         \<and> Win (elems (Participants ?m) ! i) = raw_Win (?ps ! i)
         \<and> TeamPosition (elems (Participants ?m) ! i) = raw_TeamPosition (?ps ! i)"
    unfolding ps len_def elems.simps using convert_participant_nth by blast
  have zero: "raw = rawMatch_zero \<longrightarrow>
          ?m = \<lparr>MatchID = '''', GameCreation = \<lparr>unix_sec = 0, unix_nsec = 0\<rparr>, GameDuration = 0,
               GameMode = '''', GameType = '''', Participants = Slice []\<rparr>"
    using convert_match_zero by simp
  show ?thesis
    apply (rule exI [of _ ?m])
    apply (intro conjI)
    apply (rule ret scalars instant range example shape fields zero)+
    done
qed

theorem C7_match_normalization_witness:
  "(\<exists>m. GetMatchDetails stub_svc stub_lib ''na'' ''NA1_123'' st0
          = (Inr m, \<lparr>world = 1,
               sent = [riot_request stub_svc ''http://stub/lol/match/v5/matches/NA1_123'']\<rparr>)
        \<and> MatchID m = ''NA1_123''
        \<and> GameCreation m = \<lparr>unix_sec = 1700000000, unix_nsec = 0\<rparr>
        \<and> UnixNano (GameCreation m) = 1700000000000000000
        \<and> GameDuration m = 1800
        \<and> Participants m = Slice [])
   \<and> (\<exists>m. GetMatchDetails stub_svc stub_lib ''na'' ''NA1_126'' st0
          = (Inr m, \<lparr>world = 1,
               sent = [riot_request stub_svc ''http://stub/lol/match/v5/matches/NA1_126'']\<rparr>)
        \<and> m = \<lparr>MatchID = '''', GameCreation = \<lparr>unix_sec = 0, unix_nsec = 0\<rparr>, GameDuration = 0,
               GameMode = '''', GameType = '''', Participants = Slice []\<rparr>)"
proof -
  from C7_match_normalization [OF stub_request_123 [of "''na''" st0]]
  have 1: "\<exists>m. GetMatchDetails stub_svc stub_lib ''na'' ''NA1_123'' st0
          = (Inr m, \<lparr>world = 1,
               sent = [riot_request stub_svc ''http://stub/lol/match/v5/matches/NA1_123'']\<rparr>)
        \<and> MatchID m = ''NA1_123''
        \<and> GameCreation m = \<lparr>unix_sec = 1700000000, unix_nsec = 0\<rparr>
        \<and> UnixNano (GameCreation m) = 1700000000000000000
        \<and> GameDuration m = 1800
        \<and> Participants m = Slice []"
    by (simp add: raw_123_def st0_def len_def) blast
  from C7_match_normalization [OF stub_request_126 [of "''na''" st0]]
  have 2: "\<exists>m. GetMatchDetails stub_svc stub_lib ''na'' ''NA1_126'' st0
          = (Inr m, \<lparr>world = 1,
               sent = [riot_request stub_svc ''http://stub/lol/match/v5/matches/NA1_126'']\<rparr>)
        \<and> m = \<lparr>MatchID = '''', GameCreation = \<lparr>unix_sec = 0, unix_nsec = 0\<rparr>, GameDuration = 0,
               GameMode = '''', GameType = '''', Participants = Slice []\<rparr>"
    by (simp add: st0_def)
  from 1 2 show ?thesis by (rule conjI)
qed

section \<open>Match history: properties\<close>

lemma fetched_append: "fetched (rs @ rs') = fetched rs @ fetched rs'"
  by (induction rs rule: fetched.induct) simp_all

lemma fetched_all_ok:
  "\<forall>r \<in> set rs. \<not> isl r \<Longrightarrow> map Inr (fetched rs) = rs"
  by (induction rs rule: fetched.induct) simp_all

lemma fetched_length:
  "length (fetched rs) + length (filter isl rs) = length rs"
  by (induction rs rule: fetched.induct) simp_all

lemma fetched_set: "set (fetched rs) = {m. Inr m \<in> set rs}"
  by (induction rs rule: fetched.induct) auto

lemma one_failure_split:
  assumes "length (filter isl rs) = 1"
  shows "\<exists>i < length rs. isl (rs ! i)
           \<and> map Inr (fetched rs) = take i rs @ drop (Suc i) rs"
  using assms
proof (induction rs rule: fetched.induct)
  case 1
  then show ?case by simp
next
  case (2 err rs)
  then have "filter isl rs = []" by simp
  then have "\<forall>r \<in> set rs. \<not> isl r" by (simp add: filter_empty_conv)
  then have "map Inr (fetched rs) = rs" by (rule fetched_all_ok)
  then have "isl ((Inl err # rs) ! 0)
      \<and> map Inr (fetched (Inl err # rs)) = take 0 (Inl err # rs) @ drop (Suc 0) (Inl err # rs)"
    by simp
  then show ?case by blast
next
  case (3 m rs)
  then have "length (filter isl rs) = 1" by simp
  from 3(1) [OF this] obtain i where i: "i < length rs" "isl (rs ! i)"
    "map Inr (fetched rs) = take i rs @ drop (Suc i) rs"
    by blast
  then have "Suc i < length (Inr m # rs) \<and> isl ((Inr m # rs) ! Suc i)
      \<and> map Inr (fetched (Inr m # rs)) = take (Suc i) (Inr m # rs) @ drop (Suc (Suc i)) (Inr m # rs)"
    by simp
  then show ?case by blast
qed

lemma outcomes_length:
  "detail_fetches svc lib region matchIDs st1 = (outcomes, st2)
     \<Longrightarrow> length outcomes = length matchIDs"
  by (induction matchIDs arbitrary: st1 outcomes st2) (auto split: prod.splits)

lemma detail_fetches_length:
  "length (fst (detail_fetches svc lib region matchIDs st)) = length matchIDs"
  by (cases "detail_fetches svc lib region matchIDs st") (simp add: outcomes_length)

lemma detail_fetches_append:
  "detail_fetches svc lib region (xs @ ys) st =
     (case detail_fetches svc lib region xs st of
        (rs, st') \<Rightarrow>
          (case detail_fetches svc lib region ys st' of
             (rs', st'') \<Rightarrow> (rs @ rs', st'')))"
  by (induction xs arbitrary: st) (simp_all split: prod.splits)

lemma detail_fetches_nth:
  assumes "i < length matchIDs"
  shows "fst (detail_fetches svc lib region matchIDs st) ! i
           = fst (GetMatchDetails svc lib region (matchIDs ! i)
                    (state_before svc lib region matchIDs st i))"
proof -
  from assms have split: "matchIDs = take i matchIDs @ (matchIDs ! i) # drop (Suc i) matchIDs"
    by (simp add: id_take_nth_drop)
  obtain rs st' where a: "detail_fetches svc lib region (take i matchIDs) st = (rs, st')"
    by (cases "detail_fetches svc lib region (take i matchIDs) st")
  have len: "length rs = i"
    using detail_fetches_length [of svc lib region "take i matchIDs" st] a assms by simp
  have "fst (detail_fetches svc lib region
               (take i matchIDs @ (matchIDs ! i) # drop (Suc i) matchIDs) st) ! i
          = fst (GetMatchDetails svc lib region (matchIDs ! i) st')"
    using len by (auto simp: detail_fetches_append a nth_append split: prod.splits)
  with split a show ?thesis
    by (simp add: state_before_def)
qed

lemma history_loop_fetched:
  "history_loop svc lib region matchIDs matches st =
     (matches @ fetched (fst (detail_fetches svc lib region matchIDs st)),
      snd (detail_fetches svc lib region matchIDs st))"
  by (induction matchIDs arbitrary: matches st) (simp_all split: prod.splits sum.splits)

lemma GetMatchHistory_Inr:
  assumes "makeRequest svc lib (Decode_matchIDs lib) (matchListURL svc region puuid count)
             NilSlice st = (Inr matchIDs, st1)"
    and "detail_fetches svc lib region (elems matchIDs) st1 = (outcomes, st2)"
  shows "GetMatchHistory svc lib region puuid count st = (Inr (Slice (fetched outcomes)), st2)"
  using assms by (simp add: GetMatchHistory_def history_loop_fetched)

lemma GetMatchHistory_Inl:
  assumes "makeRequest svc lib (Decode_matchIDs lib) (matchListURL svc region puuid count)
             NilSlice st = (Inl e, st1)"
  shows "GetMatchHistory svc lib region puuid count st
           = (Inl (Errorf_w ''failed to get match list: '' e), st1)"
  using assms by (simp add: GetMatchHistory_def)

lemma outcomes_nth:
  assumes "detail_fetches svc lib region matchIDs st1 = (outcomes, st2)"
    and "i < length matchIDs"
  shows "outcomes ! i = fst (GetMatchDetails svc lib region (matchIDs ! i)
                               (state_before svc lib region matchIDs st1 i))"
  using detail_fetches_nth [OF assms(2), of svc lib region st1] assms(1) by simp

lemma stub_matchListURL:
  "matchListURL stub_svc region puuid count
     = ''http://stub/lol/match/v5/matches/by-puuid/'' @ puuid @ ''/ids?start=0&count='' @ fmt_d count"
  by (simp add: matchListURL_def buildURL_def stub_svc_def)

lemma stub_Decode_matchIDs:
  "Decode_matchIDs stub_lib ''ids-123-124-125'' target
     = Inr (Slice [''NA1_123'', ''NA1_124'', ''NA1_125''])"
  "Decode_matchIDs stub_lib ''ids-123-125'' target = Inr (Slice [''NA1_123'', ''NA1_125''])"
  "Decode_matchIDs stub_lib ''ids-126'' target = Inr (Slice [''NA1_126''])"
  by (simp_all add: stub_lib_def stub_lookup_def)

lemma stub_listing_10:
  "makeRequest stub_svc stub_lib (Decode_matchIDs stub_lib)
       (matchListURL stub_svc region ''test-puuid'' 10) NilSlice st
     = (Inr (Slice [''NA1_123'', ''NA1_124'', ''NA1_125'']), \<lparr>world = Suc (world st),
          sent = sent st @ [riot_request stub_svc
            ''http://stub/lol/match/v5/matches/by-puuid/test-puuid/ids?start=0&count=10'']\<rparr>)"
  by (simp add: stub_matchListURL stub_makeRequest fmt_d_values)
     (simp add: stub_table_def stub_Decode_matchIDs)

lemma stub_listing_2:
  "makeRequest stub_svc stub_lib (Decode_matchIDs stub_lib)
       (matchListURL stub_svc region ''test-puuid'' 2) NilSlice st
     = (Inr (Slice [''NA1_123'', ''NA1_125'']), \<lparr>world = Suc (world st),
          sent = sent st @ [riot_request stub_svc
            ''http://stub/lol/match/v5/matches/by-puuid/test-puuid/ids?start=0&count=2'']\<rparr>)"
  by (simp add: stub_matchListURL stub_makeRequest fmt_d_values)
     (simp add: stub_table_def stub_Decode_matchIDs)

lemma stub_listing_1:
  "makeRequest stub_svc stub_lib (Decode_matchIDs stub_lib)
       (matchListURL stub_svc region ''test-puuid'' 1) NilSlice st
     = (Inr (Slice [''NA1_126'']), \<lparr>world = Suc (world st),
          sent = sent st @ [riot_request stub_svc
            ''http://stub/lol/match/v5/matches/by-puuid/test-puuid/ids?start=0&count=1'']\<rparr>)"
  by (simp add: stub_matchListURL stub_makeRequest fmt_d_values)
     (simp add: stub_table_def stub_Decode_matchIDs)

lemma stub_listing_nobody:
  "makeRequest stub_svc stub_lib (Decode_matchIDs stub_lib)
       (matchListURL stub_svc region ''nobody'' 10) NilSlice st
     = (Inl (status_error 404 ''Not found''), \<lparr>world = Suc (world st),
          sent = sent st @ [riot_request stub_svc
            ''http://stub/lol/match/v5/matches/by-puuid/nobody/ids?start=0&count=10'']\<rparr>)"
  by (simp add: stub_matchListURL stub_makeRequest fmt_d_values)
     (simp add: stub_table_def)

lemmas stub_details =
  GetMatchDetails_Inr [OF stub_request_123]
  GetMatchDetails_Inl [OF stub_request_124]
  GetMatchDetails_Inr [OF stub_request_125]
  GetMatchDetails_Inr [OF stub_request_126]

lemma stub_fetches_3:
  "detail_fetches stub_svc stub_lib region [''NA1_123'', ''NA1_124'', ''NA1_125''] st
     = ([Inr (convert_match raw_123),
         Inl (Errorf_w ''failed to get match details: '' (status_error 404 ''Not found'')),
         Inr (convert_match raw_125)],
        \<lparr>world = Suc (Suc (Suc (world st))),
         sent = sent st @
           [riot_request stub_svc ''http://stub/lol/match/v5/matches/NA1_123'',
            riot_request stub_svc ''http://stub/lol/match/v5/matches/NA1_124'',
            riot_request stub_svc ''http://stub/lol/match/v5/matches/NA1_125'']\<rparr>)"
  by (simp add: stub_details)

lemma stub_fetches_2:
  "detail_fetches stub_svc stub_lib region [''NA1_123'', ''NA1_125''] st
     = ([Inr (convert_match raw_123), Inr (convert_match raw_125)],
        \<lparr>world = Suc (Suc (world st)),
         sent = sent st @
           [riot_request stub_svc ''http://stub/lol/match/v5/matches/NA1_123'',
            riot_request stub_svc ''http://stub/lol/match/v5/matches/NA1_125'']\<rparr>)"
  by (simp add: stub_details)

lemma stub_fetches_1:
  "detail_fetches stub_svc stub_lib region [''NA1_126''] st
     = ([Inr (convert_match rawMatch_zero)],
        \<lparr>world = Suc (world st),
         sent = sent st @ [riot_request stub_svc ''http://stub/lol/match/v5/matches/NA1_126'']\<rparr>)"
  by (simp add: stub_details)

section \<open>Match history: the claims\<close>

text \<open>
  Claim C3. If the listing call returns K match IDs and all K detail fetches succeed,
  \<open>GetMatchHistory\<close> returns exactly K matches, and the match at each position is the one
  fetched for the ID at that position of the listing.
\<close>

theorem C3_all_detail_fetches_succeed:
  assumes "makeRequest svc lib (Decode_matchIDs lib) (matchListURL svc region puuid count)
             NilSlice st = (Inr matchIDs, st1)"
    and "len matchIDs = K"
    and "detail_fetches svc lib region (elems matchIDs) st1 = (outcomes, st2)"
    and "\<forall>r \<in> set outcomes. \<not> isl r"
  shows "\<exists>matches. GetMatchHistory svc lib region puuid count st = (Inr (Slice matches), st2)
          \<and> length matches = K
          \<and> (\<forall>i < K. fst (GetMatchDetails svc lib region (elems matchIDs ! i)
                             (state_before svc lib region (elems matchIDs) st1 i))
                        = Inr (matches ! i))"
proof -
  let ?ms = "fetched outcomes"
  have ret: "GetMatchHistory svc lib region puuid count st = (Inr (Slice ?ms), st2)"
    using assms(1,3) by (rule GetMatchHistory_Inr)
  have all: "map Inr ?ms = outcomes"
    using assms(4) by (rule fetched_all_ok)
  have lenK: "length outcomes = K"
    using outcomes_length [OF assms(3)] assms(2) by (simp add: len_def)
  have n: "length ?ms = K"
    using all lenK by (metis length_map)
  have "\<forall>i < K. fst (GetMatchDetails svc lib region (elems matchIDs ! i)
                        (state_before svc lib region (elems matchIDs) st1 i))
                   = Inr (?ms ! i)"
  proof (intro allI impI)
    fix i assume i: "i < K"
    then have "outcomes ! i = Inr (?ms ! i)"
      using all n by (metis nth_map)
    moreover have "i < length (elems matchIDs)"
      using i assms(2) by (simp add: len_def)
    ultimately show "fst (GetMatchDetails svc lib region (elems matchIDs ! i)
                        (state_before svc lib region (elems matchIDs) st1 i))
                   = Inr (?ms ! i)"
      using outcomes_nth [OF assms(3)] by simp
  qed
  with ret n show ?thesis by blast
qed

theorem C3_all_detail_fetches_succeed_witness:
  "(\<exists>matches. GetMatchHistory stub_svc stub_lib ''na'' ''test-puuid'' 2 st0
        = (Inr (Slice matches), \<lparr>world = 3, sent =
           [riot_request stub_svc
              ''http://stub/lol/match/v5/matches/by-puuid/test-puuid/ids?start=0&count=2'',
            riot_request stub_svc ''http://stub/lol/match/v5/matches/NA1_123'',
            riot_request stub_svc ''http://stub/lol/match/v5/matches/NA1_125'']\<rparr>)
      \<and> length matches = 2)
   \<and> fst (GetMatchHistory stub_svc stub_lib ''na'' ''test-puuid'' 2 st0)
       = Inr (Slice [convert_match raw_123, convert_match raw_125])
   \<and> MatchID (convert_match raw_123) = ''NA1_123''
   \<and> MatchID (convert_match raw_125) = ''NA1_125''"
proof -
  have ok: "\<forall>r \<in> set [Inr (convert_match raw_123), Inr (convert_match raw_125) :: go_error + Match].
              \<not> isl r"
    by simp
  have K: "len (Slice [''NA1_123'', ''NA1_125'']) = 2"
    by (simp add: len_def)
  have fetches: "detail_fetches stub_svc stub_lib ''na'' (elems (Slice [''NA1_123'', ''NA1_125'']))
        \<lparr>world = Suc (world st0), sent = sent st0 @ [riot_request stub_svc
           ''http://stub/lol/match/v5/matches/by-puuid/test-puuid/ids?start=0&count=2'']\<rparr>
      = ([Inr (convert_match raw_123), Inr (convert_match raw_125)],
         \<lparr>world = 3, sent =
           [riot_request stub_svc
              ''http://stub/lol/match/v5/matches/by-puuid/test-puuid/ids?start=0&count=2'',
            riot_request stub_svc ''http://stub/lol/match/v5/matches/NA1_123'',
            riot_request stub_svc ''http://stub/lol/match/v5/matches/NA1_125'']\<rparr>)"
    by (simp only: elems.simps stub_fetches_2) (simp add: st0_def)
  from C3_all_detail_fetches_succeed [OF stub_listing_2 [of "''na''" st0] K fetches ok]
  have 1: "\<exists>matches. GetMatchHistory stub_svc stub_lib ''na'' ''test-puuid'' 2 st0
        = (Inr (Slice matches), \<lparr>world = 3, sent =
           [riot_request stub_svc
              ''http://stub/lol/match/v5/matches/by-puuid/test-puuid/ids?start=0&count=2'',
            riot_request stub_svc ''http://stub/lol/match/v5/matches/NA1_123'',
            riot_request stub_svc ''http://stub/lol/match/v5/matches/NA1_125'']\<rparr>)
      \<and> length matches = 2"
    by blast
  have 2: "fst (GetMatchHistory stub_svc stub_lib ''na'' ''test-puuid'' 2 st0)
       = Inr (Slice [convert_match raw_123, convert_match raw_125])"
    by (simp only: GetMatchHistory_Inr [OF stub_listing_2 [of "''na''" st0] fetches]
        fst_conv fetched.simps)
  have 3: "MatchID (convert_match raw_123) = ''NA1_123''"
    "MatchID (convert_match raw_125) = ''NA1_125''"
    by (simp_all add: convert_match_fields raw_123_def raw_125_def)
  from 1 2 3 show ?thesis by (intro conjI)
qed

text \<open>
  Claim C1. If the listing call returns K match IDs and exactly one of the K detail
  fetches fails, \<open>GetMatchHistory\<close> returns no error and exactly K-1 matches: the matches
  fetched for the IDs before the failing one, then those fetched for the IDs after it, in
  the order of the listing, with nothing standing in for the failed entry.
\<close>

theorem C1_one_detail_fetch_fails:
  assumes "makeRequest svc lib (Decode_matchIDs lib) (matchListURL svc region puuid count)
             NilSlice st = (Inr matchIDs, st1)"
    and "len matchIDs = K"
    and "detail_fetches svc lib region (elems matchIDs) st1 = (outcomes, st2)"
    and "length (filter isl outcomes) = 1"
  shows "\<exists>matches i. GetMatchHistory svc lib region puuid count st = (Inr (Slice matches), st2)
          \<and> length matches = K - 1 \<and> i < K
          \<and> isl (fst (GetMatchDetails svc lib region (elems matchIDs ! i)
                        (state_before svc lib region (elems matchIDs) st1 i)))
          \<and> (\<forall>j < i. fst (GetMatchDetails svc lib region (elems matchIDs ! j)
                             (state_before svc lib region (elems matchIDs) st1 j))
                        = Inr (matches ! j))
          \<and> (\<forall>j. i \<le> j \<and> j < K - 1 \<longrightarrow>
                 fst (GetMatchDetails svc lib region (elems matchIDs ! Suc j)
                        (state_before svc lib region (elems matchIDs) st1 (Suc j)))
                   = Inr (matches ! j))"
proof -
  let ?ms = "fetched outcomes"
  let ?ids = "elems matchIDs"
  have ret: "GetMatchHistory svc lib region puuid count st = (Inr (Slice ?ms), st2)"
    using assms(1,3) by (rule GetMatchHistory_Inr)
  have lenK: "length outcomes = K" "length ?ids = K"
    using outcomes_length [OF assms(3)] assms(2) by (simp_all add: len_def)
  have n: "length ?ms = K - 1"
    using fetched_length [of outcomes] assms(4) lenK by simp
  from one_failure_split [OF assms(4)] obtain i where i: "i < K" "isl (outcomes ! i)"
    and split: "map Inr ?ms = take i outcomes @ drop (Suc i) outcomes"
    using lenK by blast
  have at: "\<And>j. j < K \<Longrightarrow> fst (GetMatchDetails svc lib region (?ids ! j)
                        (state_before svc lib region ?ids st1 j)) = outcomes ! j"
    using outcomes_nth [OF assms(3)] lenK by simp
  have before: "\<forall>j < i. fst (GetMatchDetails svc lib region (?ids ! j)
                             (state_before svc lib region ?ids st1 j)) = Inr (?ms ! j)"
  proof (intro allI impI)
    fix j assume j: "j < i"
    then have "j < length ?ms" using i n by simp
    then have "Inr (?ms ! j) = (take i outcomes @ drop (Suc i) outcomes) ! j"
      using split by (metis nth_map)
    also have "\<dots> = outcomes ! j"
      using j i lenK by (simp add: nth_append)
    finally show "fst (GetMatchDetails svc lib region (?ids ! j)
                             (state_before svc lib region ?ids st1 j)) = Inr (?ms ! j)"
      using at [of j] j i by simp
  qed
  have after: "\<forall>j. i \<le> j \<and> j < K - 1 \<longrightarrow>
                 fst (GetMatchDetails svc lib region (?ids ! Suc j)
                        (state_before svc lib region ?ids st1 (Suc j))) = Inr (?ms ! j)"
  proof (intro allI impI)
    fix j assume j: "i \<le> j \<and> j < K - 1"
    then have Sj: "Suc j < K" by arith
    from j have "j < length ?ms" using n by simp
    then have "Inr (?ms ! j) = (take i outcomes @ drop (Suc i) outcomes) ! j"
      using split by (metis nth_map)
    also have "\<dots> = drop (Suc i) outcomes ! (j - i)"
      using j i lenK by (simp add: nth_append)
    also have "\<dots> = outcomes ! Suc j"
      using j i lenK by simp
    finally show "fst (GetMatchDetails svc lib region (?ids ! Suc j)
                        (state_before svc lib region ?ids st1 (Suc j))) = Inr (?ms ! j)"
      using at [OF Sj] by simp
  qed
  have fails: "isl (fst (GetMatchDetails svc lib region (?ids ! i)
                        (state_before svc lib region ?ids st1 i)))"
    using at [OF i(1)] i(2) by simp
  from ret n i(1) fails before after show ?thesis by blast
qed

theorem C1_one_detail_fetch_fails_witness:
  "length (filter isl
      [Inr (convert_match raw_123),
       Inl (Errorf_w ''failed to get match details: '' (status_error 404 ''Not found'')),
       Inr (convert_match raw_125)]) = 1
   \<and> (\<exists>matches i. GetMatchHistory stub_svc stub_lib ''na'' ''test-puuid'' 10 st0
         = (Inr (Slice matches), \<lparr>world = 4, sent =
             [riot_request stub_svc
                ''http://stub/lol/match/v5/matches/by-puuid/test-puuid/ids?start=0&count=10'',
              riot_request stub_svc ''http://stub/lol/match/v5/matches/NA1_123'',
              riot_request stub_svc ''http://stub/lol/match/v5/matches/NA1_124'',
              riot_request stub_svc ''http://stub/lol/match/v5/matches/NA1_125'']\<rparr>)
       \<and> length matches = 3 - 1 \<and> i < (3::nat))
   \<and> fst (GetMatchHistory stub_svc stub_lib ''na'' ''test-puuid'' 10 st0)
       = Inr (Slice [convert_match raw_123, convert_match raw_125])"
proof -
  have one: "length (filter isl
      [Inr (convert_match raw_123),
       Inl (Errorf_w ''failed to get match details: '' (status_error 404 ''Not found'')),
       Inr (convert_match raw_125)]) = 1"
    by simp
  have K: "len (Slice [''NA1_123'', ''NA1_124'', ''NA1_125'']) = 3"
    by (simp add: len_def)
  have fetches: "detail_fetches stub_svc stub_lib ''na''
        (elems (Slice [''NA1_123'', ''NA1_124'', ''NA1_125'']))
        \<lparr>world = Suc (world st0), sent = sent st0 @ [riot_request stub_svc
           ''http://stub/lol/match/v5/matches/by-puuid/test-puuid/ids?start=0&count=10'']\<rparr>
      = ([Inr (convert_match raw_123),
          Inl (Errorf_w ''failed to get match details: '' (status_error 404 ''Not found'')),
          Inr (convert_match raw_125)],
         \<lparr>world = 4, sent =
             [riot_request stub_svc
                ''http://stub/lol/match/v5/matches/by-puuid/test-puuid/ids?start=0&count=10'',
              riot_request stub_svc ''http://stub/lol/match/v5/matches/NA1_123'',
              riot_request stub_svc ''http://stub/lol/match/v5/matches/NA1_124'',
              riot_request stub_svc ''http://stub/lol/match/v5/matches/NA1_125'']\<rparr>)"
    by (simp only: elems.simps stub_fetches_3) (simp add: st0_def)
  from C1_one_detail_fetch_fails [OF stub_listing_10 [of "''na''" st0] K fetches one]
  have 1: "\<exists>matches i. GetMatchHistory stub_svc stub_lib ''na'' ''test-puuid'' 10 st0
         = (Inr (Slice matches), \<lparr>world = 4, sent =
             [riot_request stub_svc
                ''http://stub/lol/match/v5/matches/by-puuid/test-puuid/ids?start=0&count=10'',
              riot_request stub_svc ''http://stub/lol/match/v5/matches/NA1_123'',
              riot_request stub_svc ''http://stub/lol/match/v5/matches/NA1_124'',
              riot_request stub_svc ''http://stub/lol/match/v5/matches/NA1_125'']\<rparr>)
       \<and> length matches = 3 - 1 \<and> i < (3::nat)"
    by blast
  have 2: "fst (GetMatchHistory stub_svc stub_lib ''na'' ''test-puuid'' 10 st0)
       = Inr (Slice [convert_match raw_123, convert_match raw_125])"
    by (simp only: GetMatchHistory_Inr [OF stub_listing_10 [of "''na''" st0] fetches]
        fst_conv fetched.simps)
  from one 1 2 show ?thesis by (intro conjI)
qed

text \<open>
  Claim C4. If the listing call itself fails, \<open>GetMatchHistory\<close> returns no matches and
  an error, the listing error wrapped; the state it returns is the state the listing call
  left, and the only request that can have been sent is the listing request: no detail
  fetch is attempted.
\<close>

theorem C4_listing_fails:
  assumes "makeRequest svc lib (Decode_matchIDs lib) (matchListURL svc region puuid count)
             NilSlice st = (Inl e, st1)"
  shows "GetMatchHistory svc lib region puuid count st
           = (Inl (wrapError (''failed to get match list: '' @ Error e) e), st1)
       \<and> (sent st1 = sent st
          \<or> sent st1 = sent st @ [riot_request svc (matchListURL svc region puuid count)])"
proof -
  have "GetMatchHistory svc lib region puuid count st
           = (Inl (wrapError (''failed to get match list: '' @ Error e) e), st1)"
    using GetMatchHistory_Inl [OF assms] by (simp add: Errorf_w_def)
  moreover have "sent st1 = sent st
          \<or> sent st1 = sent st @ [riot_request svc (matchListURL svc region puuid count)]"
    using makeRequest_sent [of svc lib "Decode_matchIDs lib"
        "matchListURL svc region puuid count" NilSlice st] assms
    by simp
  ultimately show ?thesis by (rule conjI)
qed

theorem C4_listing_fails_witness:
  "GetMatchHistory stub_svc stub_lib ''na'' ''nobody'' 10 st0
     = (Inl (wrapError ''failed to get match list: API request failed with status 404: Not found''
               (errorString ''API request failed with status 404: Not found'')),
        \<lparr>world = 1, sent = [riot_request stub_svc
           ''http://stub/lol/match/v5/matches/by-puuid/nobody/ids?start=0&count=10'']\<rparr>)"
  using C4_listing_fails [OF stub_listing_nobody, of "''na''" st0]
  by (simp add: st0_def status_error_def fmt_d_values)

lemma fetched_from_outcome:
  assumes "m \<in> set (fetched outcomes)"
  shows "\<exists>i < length outcomes. outcomes ! i = Inr m"
proof -
  from assms have "Inr m \<in> set outcomes" by (simp add: fetched_set)
  then show ?thesis by (metis in_set_conv_nth)
qed

text \<open>
  Claim C8, as the code has it. \<open>GetMatchDetails\<close> makes no check of the matchId: the
  match it returns carries the matchId the decoder left in the raw payload, which is
  empty when the payload sets none. A match whose detail fetch failed never appears in
  the sequence \<open>GetMatchHistory\<close> returns: every match of the sequence was returned by
  the fetch of a listed ID, and the sequence is as many matches shorter than the listing
  as fetches failed.
\<close>

theorem C8_returned_matches:
  "(GetMatchDetails svc lib region matchID st = (Inr m, st') \<longrightarrow>
      (\<exists>raw. makeRequest svc lib (Decode_rawMatch lib) (matchDetailsURL svc region matchID)
                rawMatch_zero st = (Inr raw, st')
             \<and> MatchID m = raw_MatchID (Metadata raw)))
   \<and> (makeRequest svc lib (Decode_matchIDs lib) (matchListURL svc region puuid count)
          NilSlice st = (Inr matchIDs, st1)
        \<and> detail_fetches svc lib region (elems matchIDs) st1 = (outcomes, st2) \<longrightarrow>
      (\<exists>matches. GetMatchHistory svc lib region puuid count st = (Inr (Slice matches), st2)
         \<and> length matches + length (filter isl outcomes) = len matchIDs
         \<and> (\<forall>x \<in> set matches. \<exists>i < len matchIDs.
               fst (GetMatchDetails svc lib region (elems matchIDs ! i)
                      (state_before svc lib region (elems matchIDs) st1 i)) = Inr x)))"
proof (intro conjI impI)
  assume "GetMatchDetails svc lib region matchID st = (Inr m, st')"
  then show "\<exists>raw. makeRequest svc lib (Decode_rawMatch lib) (matchDetailsURL svc region matchID)
                rawMatch_zero st = (Inr raw, st')
             \<and> MatchID m = raw_MatchID (Metadata raw)"
    unfolding GetMatchDetails_Inr_iff using convert_match_fields(1) by blast
next
  assume a: "makeRequest svc lib (Decode_matchIDs lib) (matchListURL svc region puuid count)
          NilSlice st = (Inr matchIDs, st1)
        \<and> detail_fetches svc lib region (elems matchIDs) st1 = (outcomes, st2)"
  then have listing: "makeRequest svc lib (Decode_matchIDs lib)
          (matchListURL svc region puuid count) NilSlice st = (Inr matchIDs, st1)"
    and fetches: "detail_fetches svc lib region (elems matchIDs) st1 = (outcomes, st2)"
    by simp_all
  let ?ms = "fetched outcomes"
  have ret: "GetMatchHistory svc lib region puuid count st = (Inr (Slice ?ms), st2)"
    using listing fetches by (rule GetMatchHistory_Inr)
  have lenK: "length outcomes = len matchIDs"
    using outcomes_length [OF fetches] by (simp add: len_def)
  have n: "length ?ms + length (filter isl outcomes) = len matchIDs"
    using fetched_length [of outcomes] lenK by simp
  have "\<forall>x \<in> set ?ms. \<exists>i < len matchIDs.
               fst (GetMatchDetails svc lib region (elems matchIDs ! i)
                      (state_before svc lib region (elems matchIDs) st1 i)) = Inr x"
  proof
    fix x assume "x \<in> set ?ms"
    from fetched_from_outcome [OF this] obtain i where i: "i < length outcomes"
      "outcomes ! i = Inr x"
      by blast
    then have "i < length (elems matchIDs)" using lenK by (simp add: len_def)
    from outcomes_nth [OF fetches this] i lenK
    show "\<exists>i < len matchIDs.
               fst (GetMatchDetails svc lib region (elems matchIDs ! i)
                      (state_before svc lib region (elems matchIDs) st1 i)) = Inr x"
      by auto
  qed
  with ret n show "\<exists>matches. GetMatchHistory svc lib region puuid count st
                       = (Inr (Slice matches), st2)
         \<and> length matches + length (filter isl outcomes) = len matchIDs
         \<and> (\<forall>x \<in> set matches. \<exists>i < len matchIDs.
               fst (GetMatchDetails svc lib region (elems matchIDs ! i)
                      (state_before svc lib region (elems matchIDs) st1 i)) = Inr x)"
    by blast
qed

lemma stub_fetches_after_listing_10:
  "detail_fetches stub_svc stub_lib ''na''
        (elems (Slice [''NA1_123'', ''NA1_124'', ''NA1_125'']))
        \<lparr>world = Suc (world st0), sent = sent st0 @ [riot_request stub_svc
           ''http://stub/lol/match/v5/matches/by-puuid/test-puuid/ids?start=0&count=10'']\<rparr>
      = ([Inr (convert_match raw_123),
          Inl (Errorf_w ''failed to get match details: '' (status_error 404 ''Not found'')),
          Inr (convert_match raw_125)],
         \<lparr>world = 4, sent =
             [riot_request stub_svc
                ''http://stub/lol/match/v5/matches/by-puuid/test-puuid/ids?start=0&count=10'',
              riot_request stub_svc ''http://stub/lol/match/v5/matches/NA1_123'',
              riot_request stub_svc ''http://stub/lol/match/v5/matches/NA1_124'',
              riot_request stub_svc ''http://stub/lol/match/v5/matches/NA1_125'']\<rparr>)"
  by (simp only: elems.simps stub_fetches_3) (simp add: st0_def)

theorem C8_returned_matches_witness:
  "(\<exists>raw. makeRequest stub_svc stub_lib (Decode_rawMatch stub_lib)
             (matchDetailsURL stub_svc ''na'' ''NA1_123'') rawMatch_zero st0
           = (Inr raw, \<lparr>world = Suc (world st0), sent = sent st0 @
                [riot_request stub_svc ''http://stub/lol/match/v5/matches/NA1_123'']\<rparr>)
         \<and> MatchID (convert_match raw_123) = raw_MatchID (Metadata raw))
   \<and> MatchID (convert_match raw_123) = ''NA1_123''
   \<and> (\<exists>matches. GetMatchHistory stub_svc stub_lib ''na'' ''test-puuid'' 10 st0
         = (Inr (Slice matches), \<lparr>world = 4, sent =
             [riot_request stub_svc
                ''http://stub/lol/match/v5/matches/by-puuid/test-puuid/ids?start=0&count=10'',
              riot_request stub_svc ''http://stub/lol/match/v5/matches/NA1_123'',
              riot_request stub_svc ''http://stub/lol/match/v5/matches/NA1_124'',
              riot_request stub_svc ''http://stub/lol/match/v5/matches/NA1_125'']\<rparr>)
       \<and> length matches + 1 = 3)"
proof -
  from C8_returned_matches [THEN conjunct1, rule_format,
      OF stub_details(1) [of "''na''" st0]]
  have 1: "\<exists>raw. makeRequest stub_svc stub_lib (Decode_rawMatch stub_lib)
             (matchDetailsURL stub_svc ''na'' ''NA1_123'') rawMatch_zero st0
           = (Inr raw, \<lparr>world = Suc (world st0), sent = sent st0 @
                [riot_request stub_svc ''http://stub/lol/match/v5/matches/NA1_123'']\<rparr>)
         \<and> MatchID (convert_match raw_123) = raw_MatchID (Metadata raw)" .
  have 2: "MatchID (convert_match raw_123) = ''NA1_123''"
    by (simp add: convert_match_fields raw_123_def)
  from C8_returned_matches [THEN conjunct2, rule_format,
      OF conjI [OF stub_listing_10 [of "''na''" st0] stub_fetches_after_listing_10]]
  obtain matches where m: "GetMatchHistory stub_svc stub_lib ''na'' ''test-puuid'' 10 st0
         = (Inr (Slice matches), \<lparr>world = 4, sent =
             [riot_request stub_svc
                ''http://stub/lol/match/v5/matches/by-puuid/test-puuid/ids?start=0&count=10'',
              riot_request stub_svc ''http://stub/lol/match/v5/matches/NA1_123'',
              riot_request stub_svc ''http://stub/lol/match/v5/matches/NA1_124'',
              riot_request stub_svc ''http://stub/lol/match/v5/matches/NA1_125'']\<rparr>)"
    and "length matches + length (filter isl
          [Inr (convert_match raw_123),
           Inl (Errorf_w ''failed to get match details: '' (status_error 404 ''Not found'')),
           Inr (convert_match raw_125)])
        = len (Slice [''NA1_123'', ''NA1_124'', ''NA1_125''])"
    by blast
  then have "length matches + 1 = 3"
    by (simp add: len_def)
  with m have 3: "\<exists>matches. GetMatchHistory stub_svc stub_lib ''na'' ''test-puuid'' 10 st0
         = (Inr (Slice matches), \<lparr>world = 4, sent =
             [riot_request stub_svc
                ''http://stub/lol/match/v5/matches/by-puuid/test-puuid/ids?start=0&count=10'',
              riot_request stub_svc ''http://stub/lol/match/v5/matches/NA1_123'',
              riot_request stub_svc ''http://stub/lol/match/v5/matches/NA1_124'',
              riot_request stub_svc ''http://stub/lol/match/v5/matches/NA1_125'']\<rparr>)
       \<and> length matches + 1 = 3"
    by blast
  from 1 2 3 show ?thesis by (intro conjI)
qed

text \<open>The claim as stated fails: a payload without a matchId (here the empty JSON object)
  is decoded without error and returned as a match whose matchId is empty, by
  \<open>GetMatchDetails\<close> and, in a sequence, by \<open>GetMatchHistory\<close>.\<close>

theorem C8_empty_matchId_counterexample:
  "fst (GetMatchDetails stub_svc stub_lib ''na'' ''NA1_126'' st0)
     = Inr \<lparr>MatchID = '''', GameCreation = \<lparr>unix_sec = 0, unix_nsec = 0\<rparr>, GameDuration = 0,
            GameMode = '''', GameType = '''', Participants = Slice []\<rparr>
   \<and> fst (GetMatchHistory stub_svc stub_lib ''na'' ''test-puuid'' 1 st0)
     = Inr (Slice [\<lparr>MatchID = '''', GameCreation = \<lparr>unix_sec = 0, unix_nsec = 0\<rparr>,
            GameDuration = 0, GameMode = '''', GameType = '''', Participants = Slice []\<rparr>])"
proof -
  have 1: "fst (GetMatchDetails stub_svc stub_lib ''na'' ''NA1_126'' st0)
     = Inr \<lparr>MatchID = '''', GameCreation = \<lparr>unix_sec = 0, unix_nsec = 0\<rparr>, GameDuration = 0,
            GameMode = '''', GameType = '''', Participants = Slice []\<rparr>"
    by (simp only: stub_details(4) fst_conv convert_match_zero)
  have fetches: "detail_fetches stub_svc stub_lib ''na'' (elems (Slice [''NA1_126'']))
        \<lparr>world = Suc (world st0), sent = sent st0 @ [riot_request stub_svc
           ''http://stub/lol/match/v5/matches/by-puuid/test-puuid/ids?start=0&count=1'']\<rparr>
      = ([Inr (convert_match rawMatch_zero)],
         \<lparr>world = Suc (Suc (world st0)), sent = (sent st0 @ [riot_request stub_svc
           ''http://stub/lol/match/v5/matches/by-puuid/test-puuid/ids?start=0&count=1''])
           @ [riot_request stub_svc ''http://stub/lol/match/v5/matches/NA1_126'']\<rparr>)"
    by (simp only: elems.simps stub_fetches_1) simp
  have 2: "fst (GetMatchHistory stub_svc stub_lib ''na'' ''test-puuid'' 1 st0)
     = Inr (Slice [\<lparr>MatchID = '''', GameCreation = \<lparr>unix_sec = 0, unix_nsec = 0\<rparr>,
            GameDuration = 0, GameMode = '''', GameType = '''', Participants = Slice []\<rparr>])"
    by (simp only: GetMatchHistory_Inr [OF stub_listing_1 [of "''na''" st0] fetches]
        fst_conv fetched.simps convert_match_zero)
  from 1 2 show ?thesis by (rule conjI)
qed

section \<open>Identity resolution\<close>

lemma GetSummonerByRiotID_Inl:
  assumes "makeRequest svc lib (Decode_accountInfo lib)
             (accountEndpoint svc region gameName tagLine) accountInfo_zero st = (Inl e, st1)"
  shows "GetSummonerByRiotID svc lib region gameName tagLine st
           = (Inl (wrapError (''failed to get account info: '' @ Error e) e), st1)"
  using assms by (simp add: GetSummonerByRiotID_def Errorf_w_def)

lemma GetSummonerByRiotID_Inr:
  assumes "makeRequest svc lib (Decode_accountInfo lib)
             (accountEndpoint svc region gameName tagLine) accountInfo_zero st = (Inr acct, st1)"
  shows "GetSummonerByRiotID svc lib region gameName tagLine st
           = GetSummonerByPUUID svc lib region (acct_PUUID acct) st1"
  using assms by (simp add: GetSummonerByRiotID_def)

lemma stub_accountEndpoint:
  "accountEndpoint stub_svc region gameName tagLine
     = ''http://stub/riot/account/v1/accounts/by-riot-id/'' @ gameName @ ''/'' @ tagLine"
  by (simp add: accountEndpoint_def buildURL_def stub_svc_def)

lemma stub_Decode_accountInfo:
  "Decode_accountInfo stub_lib ''account'' target
     = Inr \<lparr>acct_PUUID = ''test-puuid'', acct_GameName = ''Player'', acct_TagLine = ''NA1''\<rparr>"
  "Decode_accountInfo stub_lib ''{}'' target = Inr target"
  by (simp_all add: stub_lib_def stub_decode_def stub_lookup_def)

lemma stub_account_nobody:
  "makeRequest stub_svc stub_lib (Decode_accountInfo stub_lib)
       (accountEndpoint stub_svc region ''Nobody'' ''NA1'') accountInfo_zero st
     = (Inl (status_error 404 ''Not found''), \<lparr>world = Suc (world st),
          sent = sent st @ [riot_request stub_svc
            ''http://stub/riot/account/v1/accounts/by-riot-id/Nobody/NA1'']\<rparr>)"
  by (simp add: stub_accountEndpoint stub_makeRequest)
     (simp add: stub_table_def)

lemma stub_account_ghost:
  "makeRequest stub_svc stub_lib (Decode_accountInfo stub_lib)
       (accountEndpoint stub_svc region ''Ghost'' ''NA1'') accountInfo_zero st
     = (Inr accountInfo_zero, \<lparr>world = Suc (world st),
          sent = sent st @ [riot_request stub_svc
            ''http://stub/riot/account/v1/accounts/by-riot-id/Ghost/NA1'']\<rparr>)"
  by (simp add: stub_accountEndpoint stub_makeRequest)
     (simp add: stub_table_def stub_Decode_accountInfo)

lemma stub_summoner_empty_puuid:
  "GetSummonerByPUUID stub_svc stub_lib region '''' st
     = (Inl (wrapError ''failed to get summoner: API request failed with status 404: Not found''
               (errorString ''API request failed with status 404: Not found'')),
        \<lparr>world = Suc (world st),
         sent = sent st @ [riot_request stub_svc
            ''http://stub/lol/summoner/v4/summoners/by-puuid/'']\<rparr>)"
  by (simp add: GetSummonerByPUUID_def Let_def buildURL_def stub_svc_def [THEN arg_cong, of baseURLOverride]
        stub_makeRequest)
     (simp add: stub_table_def stub_svc_def Errorf_w_def status_error_def fmt_d_values)

text \<open>
  Claim C5, as the code has it. If the account-by-riot-id request fails,
  \<open>GetSummonerByRiotID\<close> returns no Summoner and that error wrapped once: the message is
  prefixed with \<open>failed to get account info: \<close> and the request's error is kept
  unchanged as the wrapped error; the state returned is the one the account request left,
  and the only request that can have been sent is the account request, so the
  summoner-by-puuid call is never attempted. If the account request succeeds, the result is
  the result of \<open>GetSummonerByPUUID\<close> on the account's PUUID: when that step fails, its
  error is returned unchanged, with no Summoner; that error in turn wraps the error of the
  summoner request under the prefix \<open>failed to get summoner: \<close>.
\<close>

theorem C5_identity_resolution_errors:
  "(makeRequest svc lib (Decode_accountInfo lib)
        (accountEndpoint svc region gameName tagLine) accountInfo_zero st = (Inl e, st1) \<longrightarrow>
      GetSummonerByRiotID svc lib region gameName tagLine st
        = (Inl (wrapError (''failed to get account info: '' @ Error e) e), st1)
      \<and> Unwrap (wrapError (''failed to get account info: '' @ Error e) e) = Some e
      \<and> (sent st1 = sent st
         \<or> sent st1 = sent st @ [riot_request svc (accountEndpoint svc region gameName tagLine)]))
   \<and> (makeRequest svc lib (Decode_accountInfo lib)
        (accountEndpoint svc region gameName tagLine) accountInfo_zero st = (Inr acct, st1)
       \<and> GetSummonerByPUUID svc lib region (acct_PUUID acct) st1 = (Inl e2, st2) \<longrightarrow>
      GetSummonerByRiotID svc lib region gameName tagLine st = (Inl e2, st2))
   \<and> (makeRequest svc lib (Decode_Summoner lib)
        (buildURL svc (getRegionalURL region) (''/lol/summoner/v4/summoners/by-puuid/'' @ puuid))
        Summoner_zero st = (Inl e, st1) \<longrightarrow>
      GetSummonerByPUUID svc lib region puuid st
        = (Inl (wrapError (''failed to get summoner: '' @ Error e) e), st1))"
proof (intro conjI impI)
  assume a: "makeRequest svc lib (Decode_accountInfo lib)
        (accountEndpoint svc region gameName tagLine) accountInfo_zero st = (Inl e, st1)"
  show "GetSummonerByRiotID svc lib region gameName tagLine st
        = (Inl (wrapError (''failed to get account info: '' @ Error e) e), st1)"
    using a by (rule GetSummonerByRiotID_Inl)
  show "Unwrap (wrapError (''failed to get account info: '' @ Error e) e) = Some e"
    by simp
  show "sent st1 = sent st
         \<or> sent st1 = sent st @ [riot_request svc (accountEndpoint svc region gameName tagLine)]"
    using makeRequest_sent [of svc lib "Decode_accountInfo lib"
        "accountEndpoint svc region gameName tagLine" accountInfo_zero st] a
    by simp
next
  assume "makeRequest svc lib (Decode_accountInfo lib)
        (accountEndpoint svc region gameName tagLine) accountInfo_zero st = (Inr acct, st1)
       \<and> GetSummonerByPUUID svc lib region (acct_PUUID acct) st1 = (Inl e2, st2)"
  then show "GetSummonerByRiotID svc lib region gameName tagLine st = (Inl e2, st2)"
    by (simp add: GetSummonerByRiotID_Inr)
next
  assume "makeRequest svc lib (Decode_Summoner lib)
        (buildURL svc (getRegionalURL region) (''/lol/summoner/v4/summoners/by-puuid/'' @ puuid))
        Summoner_zero st = (Inl e, st1)"
  then show "GetSummonerByPUUID svc lib region puuid st
        = (Inl (wrapError (''failed to get summoner: '' @ Error e) e), st1)"
    by (simp add: GetSummonerByPUUID_def Let_def Errorf_w_def)
qed

theorem C5_identity_resolution_errors_witness:
  "GetSummonerByRiotID stub_svc stub_lib ''na'' ''Nobody'' ''NA1'' st0
     = (Inl (wrapError ''failed to get account info: API request failed with status 404: Not found''
               (errorString ''API request failed with status 404: Not found'')),
        \<lparr>world = 1, sent = [riot_request stub_svc
            ''http://stub/riot/account/v1/accounts/by-riot-id/Nobody/NA1'']\<rparr>)
   \<and> GetSummonerByRiotID stub_svc stub_lib ''na'' ''Ghost'' ''NA1'' st0
     = (Inl (wrapError ''failed to get summoner: API request failed with status 404: Not found''
               (errorString ''API request failed with status 404: Not found'')),
        \<lparr>world = 2, sent = [riot_request stub_svc
            ''http://stub/riot/account/v1/accounts/by-riot-id/Ghost/NA1'',
          riot_request stub_svc ''http://stub/lol/summoner/v4/summoners/by-puuid/'']\<rparr>)"
proof -
  from C5_identity_resolution_errors [THEN conjunct1, rule_format,
      OF stub_account_nobody [of "''na''" st0], THEN conjunct1]
  have 1: "GetSummonerByRiotID stub_svc stub_lib ''na'' ''Nobody'' ''NA1'' st0
     = (Inl (wrapError ''failed to get account info: API request failed with status 404: Not found''
               (errorString ''API request failed with status 404: Not found'')),
        \<lparr>world = 1, sent = [riot_request stub_svc
            ''http://stub/riot/account/v1/accounts/by-riot-id/Nobody/NA1'']\<rparr>)"
    by (simp add: st0_def status_error_def fmt_d_values)
  have s: "GetSummonerByPUUID stub_svc stub_lib ''na'' (acct_PUUID accountInfo_zero)
      \<lparr>world = Suc (world st0), sent = sent st0 @ [riot_request stub_svc
            ''http://stub/riot/account/v1/accounts/by-riot-id/Ghost/NA1'']\<rparr>
     = (Inl (wrapError ''failed to get summoner: API request failed with status 404: Not found''
               (errorString ''API request failed with status 404: Not found'')),
        \<lparr>world = 2, sent = [riot_request stub_svc
            ''http://stub/riot/account/v1/accounts/by-riot-id/Ghost/NA1'',
          riot_request stub_svc ''http://stub/lol/summoner/v4/summoners/by-puuid/'']\<rparr>)"
    by (simp add: accountInfo_zero_def stub_summoner_empty_puuid st0_def)
  from C5_identity_resolution_errors [THEN conjunct2, rule_format,
      THEN conjunct1, rule_format, OF conjI [OF stub_account_ghost [of "''na''" st0] s]]
  have 2: "GetSummonerByRiotID stub_svc stub_lib ''na'' ''Ghost'' ''NA1'' st0
     = (Inl (wrapError ''failed to get summoner: API request failed with status 404: Not found''
               (errorString ''API request failed with status 404: Not found'')),
        \<lparr>world = 2, sent = [riot_request stub_svc
            ''http://stub/riot/account/v1/accounts/by-riot-id/Ghost/NA1'',
          riot_request stub_svc ''http://stub/lol/summoner/v4/summoners/by-puuid/'']\<rparr>)" .
  from 1 2 show ?thesis by (rule conjI)
qed

text \<open>The claim as stated fails for the account step: the request fails with the status
  error for 404, and the operation surfaces another error, with another message, that
  wraps it.\<close>

theorem C5_account_error_wrapped_counterexample:
  "fst (makeRequest stub_svc stub_lib (Decode_accountInfo stub_lib)
          (accountEndpoint stub_svc ''na'' ''Nobody'' ''NA1'') accountInfo_zero st0)
     = Inl (errorString ''API request failed with status 404: Not found'')
   \<and> fst (GetSummonerByRiotID stub_svc stub_lib ''na'' ''Nobody'' ''NA1'' st0)
     = Inl (wrapError ''failed to get account info: API request failed with status 404: Not found''
              (errorString ''API request failed with status 404: Not found''))
   \<and> projl (fst (GetSummonerByRiotID stub_svc stub_lib ''na'' ''Nobody'' ''NA1'' st0))
     \<noteq> projl (fst (makeRequest stub_svc stub_lib (Decode_accountInfo stub_lib)
          (accountEndpoint stub_svc ''na'' ''Nobody'' ''NA1'') accountInfo_zero st0))
   \<and> Error (wrapError ''failed to get account info: API request failed with status 404: Not found''
              (errorString ''API request failed with status 404: Not found''))
     \<noteq> Error (errorString ''API request failed with status 404: Not found'')"
proof -
  have 1: "fst (makeRequest stub_svc stub_lib (Decode_accountInfo stub_lib)
          (accountEndpoint stub_svc ''na'' ''Nobody'' ''NA1'') accountInfo_zero st0)
     = Inl (errorString ''API request failed with status 404: Not found'')"
    by (simp add: stub_account_nobody status_error_def fmt_d_values)
  have 2: "fst (GetSummonerByRiotID stub_svc stub_lib ''na'' ''Nobody'' ''NA1'' st0)
     = Inl (wrapError ''failed to get account info: API request failed with status 404: Not found''
              (errorString ''API request failed with status 404: Not found''))"
    by (simp add: GetSummonerByRiotID_Inl [OF stub_account_nobody] status_error_def fmt_d_values)
  have 3: "projl (fst (GetSummonerByRiotID stub_svc stub_lib ''na'' ''Nobody'' ''NA1'' st0))
     \<noteq> projl (fst (makeRequest stub_svc stub_lib (Decode_accountInfo stub_lib)
          (accountEndpoint stub_svc ''na'' ''Nobody'' ''NA1'') accountInfo_zero st0))"
    unfolding 1 2 by simp
  have 4: "Error (wrapError ''failed to get account info: API request failed with status 404: Not found''
              (errorString ''API request failed with status 404: Not found''))
     \<noteq> Error (errorString ''API request failed with status 404: Not found'')"
    by simp
  from 1 2 3 4 show ?thesis by (intro conjI)
qed

section \<open>The count passed by the handlers\<close>

lemma digit_val_digit_char: "d < 10 \<Longrightarrow> digit_val (digit_char d) = Some d"
  by (drule lt10_cases) (auto simp: digit_char_def digit_val_def)

lemma ParseUint_loop_append:
  "ParseUint_loop (xs @ ys) n
     = (case ParseUint_loop xs n of Inl err \<Rightarrow> Inl err | Inr m \<Rightarrow> ParseUint_loop ys m)"
  by (induction xs arbitrary: n) (simp_all split: option.splits)

lemma ParseUint_loop_digits:
  "ParseUint_loop (digits n) 0 = (if n < 2 ^ 64 then Inr n else Inl ErrRange)"
proof (induction n rule: digits.induct)
  case (1 n)
  show ?case
  proof (cases "n < 10")
    case True
    then show ?thesis by (simp add: digits.simps [of n] digit_val_digit_char)
  next
    case False
    have d: "digit_val (digit_char (n mod 10)) = Some (n mod 10)"
      by (simp add: digit_val_digit_char)
    have n: "n div 10 * 10 + n mod 10 = n" by simp
    from False 1 have ih: "ParseUint_loop (digits (n div 10)) 0
        = (if n div 10 < 2 ^ 64 then Inr (n div 10) else Inl ErrRange)"
      by simp
    have big: "\<not> n div 10 < 2 ^ 64 \<Longrightarrow> \<not> n < 2 ^ 64"
      by simp
    have "ParseUint_loop (digits n) 0
        = (case ParseUint_loop (digits (n div 10)) 0 of
             Inl err \<Rightarrow> Inl err
           | Inr m \<Rightarrow> ParseUint_loop [digit_char (n mod 10)] m)"
      using False by (simp add: digits.simps [of n] ParseUint_loop_append)
    also have "\<dots> = (if n < 2 ^ 64 then Inr n else Inl ErrRange)"
    proof (cases "n div 10 < 2 ^ 64")
      case True
      then show ?thesis by (simp only: ih if_True sum.case ParseUint_loop.simps d option.case n)
          (simp add: not_le)
    next
      case False
      with big show ?thesis by (simp add: ih)
    qed
    finally show ?thesis .
  qed
qed

lemma ParseUint_digits: "ParseUint (digits n) = (if n < 2 ^ 64 then Inr n else Inl ErrRange)"
  by (simp add: ParseUint_def digits_nonempty ParseUint_loop_digits)

lemma digits_no_plus: "hd (digits n) \<noteq> CHR ''+''"
proof -
  have "hd (digits n) \<in> set (digits n)" using digits_nonempty by simp
  then have "hd (digits n) \<in> set ''0123456789''" using digits_set by blast
  then show ?thesis by auto
qed

lemma strconv_Atoi_fmt_d:
  "strconv_Atoi (fmt_d i) = (if - (2 ^ 63) \<le> i \<and> i < 2 ^ 63 then Inr i else Inl ErrRange)"
proof (cases "i < 0")
  case True
  then have "strconv_Atoi (fmt_d i)
      = (case ParseUint (digits (nat (- i))) of
           Inl err \<Rightarrow> Inl err
         | Inr un \<Rightarrow> if 2 ^ 63 < un then Inl ErrRange else Inr (- int un))"
    by (simp add: strconv_Atoi_def ParseInt_def fmt_d_def split: sum.splits)
  also have "\<dots> = (if - (2 ^ 63) \<le> i \<and> i < 2 ^ 63 then Inr i else Inl ErrRange)"
    using True by (auto simp: ParseUint_digits)
  finally show ?thesis .
next
  case False
  then have "strconv_Atoi (fmt_d i)
      = (case ParseUint (digits (nat i)) of
           Inl err \<Rightarrow> Inl err
         | Inr un \<Rightarrow> if 2 ^ 63 \<le> un then Inl ErrRange else Inr (int un))"
    by (simp add: strconv_Atoi_def ParseInt_def fmt_d_def digits_nonempty digits_no_plus
        digits_no_minus split: sum.splits)
  also have "\<dots> = (if - (2 ^ 63) \<le> i \<and> i < 2 ^ 63 then Inr i else Inl ErrRange)"
    using False by (auto simp: ParseUint_digits)
  finally show ?thesis .
qed

lemma fmt_d_nonempty: "fmt_d i \<noteq> ''''"
  by (simp add: fmt_d_def digits_nonempty)

lemma matches_by_puuid_reply:
  "matches_by_puuid riotService matchRequest puuid st
     = GetMatchHistory_reply riotService (req_Region matchRequest) puuid
         (if 0 < req_Count matchRequest then req_Count matchRequest else 20) st"
  by (simp add: matches_by_puuid_def call_GetMatchHistory_def GetMatchHistory_reply_def Let_def
      split: prod.splits sum.splits)

lemma GetMatches_reply:
  "GetMatches riotService Atoi region puuid countStr st
     = GetMatchHistory_reply riotService region puuid
         (if countStr \<noteq> '''' then
            (case Atoi countStr of
               Inr parsedCount \<Rightarrow> if parsedCount > 0 then parsedCount else 20
             | Inl err \<Rightarrow> 20)
          else 20) st"
  by (simp add: GetMatches_def call_GetMatchHistory_def GetMatchHistory_reply_def Let_def
      split: prod.splits sum.splits)

text \<open>
  Claim C9, as the code has it. \<open>GetMatchHistory_reply\<close> with a count is the call of
  \<^verbatim>\<open>GetMatchHistory\<close> through the interface with that count, and the reply made
  from its result. In \<open>GetMatchesByRiotID\<close>, whenever the request reaches the match
  history (a region and either a PUUID, or a game name and tag line whose lookup succeeds),
  \<^verbatim>\<open>GetMatchHistory\<close> is called with the count of the request when that is positive
  and with 20 otherwise; an absent count field leaves the zero value 0 in the request
  struct and so gives 20. In the path-parameter handler \<open>GetMatches\<close> the count comes as
  text: \<^verbatim>\<open>GetMatchHistory\<close> is called with 20 when the query parameter is absent;
  with \<open>n\<close> when the parameter is the decimal numeral of a positive \<open>n\<close> below
  \<open>2\<^sup>6\<^sup>3\<close>; with 20 when it is the numeral of zero or of a negative number; and
  with 20 as well when it is the numeral of a positive number from \<open>2\<^sup>6\<^sup>3\<close> on,
  which \<^verbatim>\<open>strconv.Atoi\<close> refuses. In general the count is the number
  \<^verbatim>\<open>strconv.Atoi\<close> returns when that is positive, and 20 when the number is not
  positive or \<^verbatim>\<open>strconv.Atoi\<close> returns an error.
\<close>

theorem C9_count_passed_to_GetMatchHistory:
  "(Decode body matchRequest_zero = Inr mr \<and> req_Region mr \<noteq> '''' \<and> req_PUUID mr \<noteq> '''' \<longrightarrow>
      GetMatchesByRiotID riotService Decode body st
        = GetMatchHistory_reply riotService (req_Region mr) (req_PUUID mr)
            (if 0 < req_Count mr then req_Count mr else 20) st)
   \<and> (Decode body matchRequest_zero = Inr mr \<and> req_Region mr \<noteq> '''' \<and> req_PUUID mr = ''''
        \<and> req_GameName mr \<noteq> '''' \<and> req_TagLine mr \<noteq> ''''
        \<and> iface_GetSummonerByRiotID riotService (req_Region mr) (req_GameName mr)
             (req_TagLine mr) (hworld st) = (Inr summoner, w') \<longrightarrow>
      GetMatchesByRiotID riotService Decode body st
        = GetMatchHistory_reply riotService (req_Region mr) (s_PUUID summoner)
            (if 0 < req_Count mr then req_Count mr else 20)
            \<lparr>hworld = w', calls = calls st @
               [Call_GetSummonerByRiotID (req_Region mr) (req_GameName mr) (req_TagLine mr)]\<rparr>)
   \<and> GetMatches riotService strconv_Atoi region puuid '''' st
        = GetMatchHistory_reply riotService region puuid 20 st
   \<and> (0 < n \<and> n < 2 ^ 63 \<longrightarrow>
      GetMatches riotService strconv_Atoi region puuid (fmt_d n) st
        = GetMatchHistory_reply riotService region puuid n st)
   \<and> (n \<le> 0 \<longrightarrow>
      GetMatches riotService strconv_Atoi region puuid (fmt_d n) st
        = GetMatchHistory_reply riotService region puuid 20 st)
   \<and> (2 ^ 63 \<le> n \<longrightarrow>
      GetMatches riotService strconv_Atoi region puuid (fmt_d n) st
        = GetMatchHistory_reply riotService region puuid 20 st)
   \<and> (countStr \<noteq> '''' \<and> strconv_Atoi countStr = Inr k \<longrightarrow>
      GetMatches riotService strconv_Atoi region puuid countStr st
        = GetMatchHistory_reply riotService region puuid (if 0 < k then k else 20) st)
   \<and> (countStr \<noteq> '''' \<and> strconv_Atoi countStr = Inl err \<longrightarrow>
      GetMatches riotService strconv_Atoi region puuid countStr st
        = GetMatchHistory_reply riotService region puuid 20 st)
   \<and> calls (snd (GetMatchHistory_reply riotService region puuid count st))
        = calls st @ [Call_GetMatchHistory region puuid count]"
proof (intro conjI impI)
  assume "Decode body matchRequest_zero = Inr mr \<and> req_Region mr \<noteq> '''' \<and> req_PUUID mr \<noteq> ''''"
  then show "GetMatchesByRiotID riotService Decode body st
        = GetMatchHistory_reply riotService (req_Region mr) (req_PUUID mr)
            (if 0 < req_Count mr then req_Count mr else 20) st"
    by (simp add: GetMatchesByRiotID_def matches_by_puuid_reply)
next
  assume a: "Decode body matchRequest_zero = Inr mr \<and> req_Region mr \<noteq> '''' \<and> req_PUUID mr = ''''
        \<and> req_GameName mr \<noteq> '''' \<and> req_TagLine mr \<noteq> ''''
        \<and> iface_GetSummonerByRiotID riotService (req_Region mr) (req_GameName mr)
             (req_TagLine mr) (hworld st) = (Inr summoner, w')"
  then have lookup: "call_GetSummonerByRiotID riotService (req_Region mr) (req_GameName mr)
        (req_TagLine mr) st
      = (Inr summoner, \<lparr>hworld = w', calls = calls st @
           [Call_GetSummonerByRiotID (req_Region mr) (req_GameName mr) (req_TagLine mr)]\<rparr>)"
    by (simp add: call_GetSummonerByRiotID_def)
  from a show "GetMatchesByRiotID riotService Decode body st
        = GetMatchHistory_reply riotService (req_Region mr) (s_PUUID summoner)
            (if 0 < req_Count mr then req_Count mr else 20)
            \<lparr>hworld = w', calls = calls st @
               [Call_GetSummonerByRiotID (req_Region mr) (req_GameName mr) (req_TagLine mr)]\<rparr>"
    by (simp add: GetMatchesByRiotID_def lookup matches_by_puuid_reply)
next
  show "GetMatches riotService strconv_Atoi region puuid '''' st
        = GetMatchHistory_reply riotService region puuid 20 st"
    by (simp add: GetMatches_reply)
next
  assume "0 < n \<and> n < 2 ^ 63"
  then show "GetMatches riotService strconv_Atoi region puuid (fmt_d n) st
        = GetMatchHistory_reply riotService region puuid n st"
    by (simp add: GetMatches_reply fmt_d_nonempty strconv_Atoi_fmt_d)
next
  assume "n \<le> 0"
  then show "GetMatches riotService strconv_Atoi region puuid (fmt_d n) st
        = GetMatchHistory_reply riotService region puuid 20 st"
    by (simp add: GetMatches_reply fmt_d_nonempty strconv_Atoi_fmt_d)
next
  assume "2 ^ 63 \<le> n"
  then show "GetMatches riotService strconv_Atoi region puuid (fmt_d n) st
        = GetMatchHistory_reply riotService region puuid 20 st"
    by (simp add: GetMatches_reply fmt_d_nonempty strconv_Atoi_fmt_d)
next
  assume "countStr \<noteq> '''' \<and> strconv_Atoi countStr = Inr k"
  then show "GetMatches riotService strconv_Atoi region puuid countStr st
        = GetMatchHistory_reply riotService region puuid (if 0 < k then k else 20) st"
    by (simp add: GetMatches_reply)
next
  assume "countStr \<noteq> '''' \<and> strconv_Atoi countStr = Inl err"
  then show "GetMatches riotService strconv_Atoi region puuid countStr st
        = GetMatchHistory_reply riotService region puuid 20 st"
    by (simp add: GetMatches_reply)
next
  show "calls (snd (GetMatchHistory_reply riotService region puuid count st))
        = calls st @ [Call_GetMatchHistory region puuid count]"
    by (simp add: GetMatchHistory_reply_def split: prod.splits sum.splits)
qed

lemma stub_Decode_matchRequest_values:
  "stub_Decode_matchRequest ''by-puuid-count-5'' matchRequest_zero
     = Inr \<lparr>req_Region = ''na'', req_GameName = '''', req_TagLine = '''',
            req_PUUID = ''test-puuid'', req_Count = 5\<rparr>"
  "stub_Decode_matchRequest ''by-puuid-no-count'' matchRequest_zero
     = Inr \<lparr>req_Region = ''na'', req_GameName = '''', req_TagLine = '''',
            req_PUUID = ''test-puuid'', req_Count = 0\<rparr>"
  "stub_Decode_matchRequest ''by-riot-id-count-minus-3'' matchRequest_zero
     = Inr \<lparr>req_Region = ''euw'', req_GameName = ''Player'', req_TagLine = ''NA1'',
            req_PUUID = '''', req_Count = - 3\<rparr>"
  by (simp_all add: stub_Decode_matchRequest_def stub_decode_def stub_lookup_def)

lemma stub_reply:
  "GetMatchHistory_reply stub_iface region puuid count st
     = (json_Encode (Slice (replicate (nat count) (convert_match raw_123))),
        \<lparr>hworld = Suc (hworld st), calls = calls st @ [Call_GetMatchHistory region puuid count]\<rparr>)"
  by (simp add: GetMatchHistory_reply_def stub_iface_def)

lemma fmt_d_counts:
  "fmt_d 7 = ''7''" "fmt_d (- 4) = ''-4''" "fmt_d 0 = ''0''"
  "fmt_d 9223372036854775808 = ''9223372036854775808''"
  "fmt_d 99999999999999999999 = ''99999999999999999999''"
  by (simp_all add: fmt_d_def digits.simps digit_char_def)

lemma strconv_Atoi_values:
  "strconv_Atoi ''+7'' = Inr 7"
  "strconv_Atoi ''abc'' = Inl ErrSyntax"
  "strconv_Atoi ''99999999999999999999'' = Inl ErrRange"
  by (simp_all add: strconv_Atoi_def ParseInt_def ParseUint_def digit_val_def Let_def)

theorem C9_count_passed_to_GetMatchHistory_witness:
  "GetMatchesByRiotID stub_iface stub_Decode_matchRequest ''by-puuid-count-5'' hst0
     = (json_Encode (Slice (replicate 5 (convert_match raw_123))),
        \<lparr>hworld = 1, calls = [Call_GetMatchHistory ''na'' ''test-puuid'' 5]\<rparr>)
   \<and> GetMatchesByRiotID stub_iface stub_Decode_matchRequest ''by-puuid-no-count'' hst0
     = (json_Encode (Slice (replicate 20 (convert_match raw_123))),
        \<lparr>hworld = 1, calls = [Call_GetMatchHistory ''na'' ''test-puuid'' 20]\<rparr>)
   \<and> GetMatchesByRiotID stub_iface stub_Decode_matchRequest ''by-riot-id-count-minus-3'' hst0
     = (json_Encode (Slice (replicate 20 (convert_match raw_123))),
        \<lparr>hworld = 2, calls = [Call_GetSummonerByRiotID ''euw'' ''Player'' ''NA1'',
                               Call_GetMatchHistory ''euw'' ''test-puuid'' 20]\<rparr>)
   \<and> GetMatches stub_iface strconv_Atoi ''na'' ''test-puuid'' '''' hst0
     = (json_Encode (Slice (replicate 20 (convert_match raw_123))),
        \<lparr>hworld = 1, calls = [Call_GetMatchHistory ''na'' ''test-puuid'' 20]\<rparr>)
   \<and> GetMatches stub_iface strconv_Atoi ''na'' ''test-puuid'' ''7'' hst0
     = (json_Encode (Slice (replicate 7 (convert_match raw_123))),
        \<lparr>hworld = 1, calls = [Call_GetMatchHistory ''na'' ''test-puuid'' 7]\<rparr>)
   \<and> GetMatches stub_iface strconv_Atoi ''na'' ''test-puuid'' ''-4'' hst0
     = (json_Encode (Slice (replicate 20 (convert_match raw_123))),
        \<lparr>hworld = 1, calls = [Call_GetMatchHistory ''na'' ''test-puuid'' 20]\<rparr>)
   \<and> GetMatches stub_iface strconv_Atoi ''na'' ''test-puuid'' ''0'' hst0
     = (json_Encode (Slice (replicate 20 (convert_match raw_123))),
        \<lparr>hworld = 1, calls = [Call_GetMatchHistory ''na'' ''test-puuid'' 20]\<rparr>)
   \<and> GetMatches stub_iface strconv_Atoi ''na'' ''test-puuid'' ''9223372036854775808'' hst0
     = (json_Encode (Slice (replicate 20 (convert_match raw_123))),
        \<lparr>hworld = 1, calls = [Call_GetMatchHistory ''na'' ''test-puuid'' 20]\<rparr>)
   \<and> GetMatches stub_iface strconv_Atoi ''na'' ''test-puuid'' ''+7'' hst0
     = (json_Encode (Slice (replicate 7 (convert_match raw_123))),
        \<lparr>hworld = 1, calls = [Call_GetMatchHistory ''na'' ''test-puuid'' 7]\<rparr>)
   \<and> GetMatches stub_iface strconv_Atoi ''na'' ''test-puuid'' ''abc'' hst0
     = (json_Encode (Slice (replicate 20 (convert_match raw_123))),
        \<lparr>hworld = 1, calls = [Call_GetMatchHistory ''na'' ''test-puuid'' 20]\<rparr>)
   \<and> calls (snd (GetMatchHistory_reply stub_iface ''na'' ''test-puuid'' 7 hst0))
     = [Call_GetMatchHistory ''na'' ''test-puuid'' 7]"
proof -
  note inst = C9_count_passed_to_GetMatchHistory [where riotService = stub_iface and st = hst0]
  note route = inst [where region = "''na''" and puuid = "''test-puuid''"]
  have lookup: "iface_GetSummonerByRiotID stub_iface ''euw'' ''Player'' ''NA1'' (hworld hst0)
      = (Inr stub_summoner, Suc 0)"
    by (simp add: stub_iface_def hst0_def)
  have 1: "GetMatchesByRiotID stub_iface stub_Decode_matchRequest ''by-puuid-count-5'' hst0
     = (json_Encode (Slice (replicate 5 (convert_match raw_123))),
        \<lparr>hworld = 1, calls = [Call_GetMatchHistory ''na'' ''test-puuid'' 5]\<rparr>)"
    using inst [where Decode = stub_Decode_matchRequest and body = "''by-puuid-count-5''",
        THEN conjunct1, rule_format, OF conjI [OF stub_Decode_matchRequest_values(1)]]
    by (simp add: stub_reply hst0_def)
  have 2: "GetMatchesByRiotID stub_iface stub_Decode_matchRequest ''by-puuid-no-count'' hst0
     = (json_Encode (Slice (replicate 20 (convert_match raw_123))),
        \<lparr>hworld = 1, calls = [Call_GetMatchHistory ''na'' ''test-puuid'' 20]\<rparr>)"
    using inst [where Decode = stub_Decode_matchRequest and body = "''by-puuid-no-count''",
        THEN conjunct1, rule_format, OF conjI [OF stub_Decode_matchRequest_values(2)]]
    by (simp add: stub_reply hst0_def)
  have 3: "GetMatchesByRiotID stub_iface stub_Decode_matchRequest ''by-riot-id-count-minus-3'' hst0
     = (json_Encode (Slice (replicate 20 (convert_match raw_123))),
        \<lparr>hworld = 2, calls = [Call_GetSummonerByRiotID ''euw'' ''Player'' ''NA1'',
                               Call_GetMatchHistory ''euw'' ''test-puuid'' 20]\<rparr>)"
    using inst [where Decode = stub_Decode_matchRequest and body = "''by-riot-id-count-minus-3''"
        and summoner = stub_summoner and w' = "Suc 0",
        THEN conjunct2, THEN conjunct1, rule_format,
        OF conjI [OF stub_Decode_matchRequest_values(3)]]
      lookup
    by (simp add: stub_reply hst0_def stub_summoner_def)
  have 4: "GetMatches stub_iface strconv_Atoi ''na'' ''test-puuid'' '''' hst0
     = (json_Encode (Slice (replicate 20 (convert_match raw_123))),
        \<lparr>hworld = 1, calls = [Call_GetMatchHistory ''na'' ''test-puuid'' 20]\<rparr>)"
    using route [THEN conjunct2, THEN conjunct2, THEN conjunct1]
    by (simp add: stub_reply hst0_def)
  have 5: "GetMatches stub_iface strconv_Atoi ''na'' ''test-puuid'' ''7'' hst0
     = (json_Encode (Slice (replicate 7 (convert_match raw_123))),
        \<lparr>hworld = 1, calls = [Call_GetMatchHistory ''na'' ''test-puuid'' 7]\<rparr>)"
    using route [where n = 7, THEN conjunct2, THEN conjunct2, THEN conjunct2, THEN conjunct1]
    by (simp add: stub_reply hst0_def fmt_d_counts)
  have 6: "GetMatches stub_iface strconv_Atoi ''na'' ''test-puuid'' ''-4'' hst0
     = (json_Encode (Slice (replicate 20 (convert_match raw_123))),
        \<lparr>hworld = 1, calls = [Call_GetMatchHistory ''na'' ''test-puuid'' 20]\<rparr>)"
    using route [where n = "- 4", THEN conjunct2, THEN conjunct2, THEN conjunct2, THEN conjunct2,
        THEN conjunct1]
    by (simp add: stub_reply hst0_def fmt_d_counts)
  have 7: "GetMatches stub_iface strconv_Atoi ''na'' ''test-puuid'' ''0'' hst0
     = (json_Encode (Slice (replicate 20 (convert_match raw_123))),
        \<lparr>hworld = 1, calls = [Call_GetMatchHistory ''na'' ''test-puuid'' 20]\<rparr>)"
    using route [where n = 0, THEN conjunct2, THEN conjunct2, THEN conjunct2, THEN conjunct2,
        THEN conjunct1]
    by (simp add: stub_reply hst0_def fmt_d_counts)
  have 8: "GetMatches stub_iface strconv_Atoi ''na'' ''test-puuid'' ''9223372036854775808'' hst0
     = (json_Encode (Slice (replicate 20 (convert_match raw_123))),
        \<lparr>hworld = 1, calls = [Call_GetMatchHistory ''na'' ''test-puuid'' 20]\<rparr>)"
    using route [where n = 9223372036854775808, THEN conjunct2, THEN conjunct2, THEN conjunct2,
        THEN conjunct2, THEN conjunct2, THEN conjunct1]
    by (simp add: stub_reply hst0_def fmt_d_counts)
  have 9: "GetMatches stub_iface strconv_Atoi ''na'' ''test-puuid'' ''+7'' hst0
     = (json_Encode (Slice (replicate 7 (convert_match raw_123))),
        \<lparr>hworld = 1, calls = [Call_GetMatchHistory ''na'' ''test-puuid'' 7]\<rparr>)"
    using route [where countStr = "''+7''" and k = 7, THEN conjunct2, THEN conjunct2,
        THEN conjunct2, THEN conjunct2, THEN conjunct2, THEN conjunct2, THEN conjunct1]
    by (simp add: stub_reply hst0_def strconv_Atoi_values)
  have 10: "GetMatches stub_iface strconv_Atoi ''na'' ''test-puuid'' ''abc'' hst0
     = (json_Encode (Slice (replicate 20 (convert_match raw_123))),
        \<lparr>hworld = 1, calls = [Call_GetMatchHistory ''na'' ''test-puuid'' 20]\<rparr>)"
    using route [where countStr = "''abc''" and err = ErrSyntax, THEN conjunct2, THEN conjunct2,
        THEN conjunct2, THEN conjunct2, THEN conjunct2, THEN conjunct2, THEN conjunct2,
        THEN conjunct1]
    by (simp add: stub_reply hst0_def strconv_Atoi_values)
  have 11: "calls (snd (GetMatchHistory_reply stub_iface ''na'' ''test-puuid'' 7 hst0))
     = [Call_GetMatchHistory ''na'' ''test-puuid'' 7]"
    using route [where count = 7, THEN conjunct2, THEN conjunct2, THEN conjunct2,
        THEN conjunct2, THEN conjunct2, THEN conjunct2, THEN conjunct2, THEN conjunct2]
    by (simp add: hst0_def)
  from 1 2 3 4 5 6 7 8 9 10 11 show ?thesis by (intro conjI)
qed

text \<open>The claim as stated fails in \<open>GetMatches\<close> for a positive count that is no
  \<^verbatim>\<open>int\<close>: the request \<^verbatim>\<open>?count=99999999999999999999\<close> supplies a positive
  count, \<^verbatim>\<open>strconv.Atoi\<close> refuses it, and \<^verbatim>\<open>GetMatchHistory\<close> is called with
  20.\<close>

theorem C9_count_beyond_int_counterexample:
  "(0::int) < 99999999999999999999
   \<and> fmt_d 99999999999999999999 = ''99999999999999999999''
   \<and> strconv_Atoi ''99999999999999999999'' = Inl ErrRange
   \<and> GetMatches stub_iface strconv_Atoi ''na'' ''test-puuid'' ''99999999999999999999'' hst0
     = (json_Encode (Slice (replicate 20 (convert_match raw_123))),
        \<lparr>hworld = 1, calls = [Call_GetMatchHistory ''na'' ''test-puuid'' 20]\<rparr>)
   \<and> GetMatches stub_iface strconv_Atoi ''na'' ''test-puuid'' ''99999999999999999999'' hst0
     \<noteq> GetMatchHistory_reply stub_iface ''na'' ''test-puuid'' 99999999999999999999 hst0"
proof -
  have 1: "(0::int) < 99999999999999999999" by simp
  have 2: "GetMatches stub_iface strconv_Atoi ''na'' ''test-puuid'' ''99999999999999999999'' hst0
     = (json_Encode (Slice (replicate 20 (convert_match raw_123))),
        \<lparr>hworld = 1, calls = [Call_GetMatchHistory ''na'' ''test-puuid'' 20]\<rparr>)"
    by (simp add: GetMatches_reply strconv_Atoi_values(3) stub_reply hst0_def)
  have 3: "GetMatches stub_iface strconv_Atoi ''na'' ''test-puuid'' ''99999999999999999999'' hst0
     \<noteq> GetMatchHistory_reply stub_iface ''na'' ''test-puuid'' 99999999999999999999 hst0"
    by (simp only: 2) (simp add: stub_reply hst0_def)
  from 1 fmt_d_counts(5) strconv_Atoi_values(3) 2 3 show ?thesis by (intro conjI)
qed

end
